theory Spec2Isabelle
  imports Main
begin

section \<open>Python values and primitives\<close>

text \<open>
  The backend is Python. A \<open>str\<close> is modelled as a \<^typ>\<open>string\<close>, that is a list of
  8-bit characters: the texts covered are those whose code points are below 256.
  Python integers are \<^typ>\<open>int\<close>; counters that only count up from zero are \<^typ>\<open>nat\<close>.
  A raised exception is a value of \<open>exn\<close>; a function that can raise returns
  \<open>exn + 'a\<close>, with \<open>Inl\<close> for the exception.
\<close>

datatype exn =
    ValueError string
  | AttributeError string
  | TypeError string
  | IndexError string
  | Failure string

text \<open>\<open>Failure\<close> stands for any other \<open>Exception\<close> raised by a collaborator (pypdf, the
  embedding model, the Qdrant client, the Gemini client, the file system); \<open>str_exn\<close> is \<open>str(e)\<close>.\<close>

fun str_exn :: "exn \<Rightarrow> string" where
  "str_exn (ValueError m) = m"
| "str_exn (AttributeError m) = m"
| "str_exn (TypeError m) = m"
| "str_exn (IndexError m) = m"
| "str_exn (Failure m) = m"

text \<open>\<open>try: body except Exception as e: handler(e)\<close>.\<close>

definition try_except :: "exn + 'a \<Rightarrow> (exn \<Rightarrow> exn + 'a) \<Rightarrow> exn + 'a" where
  "try_except body handler = (case body of Inl e \<Rightarrow> handler e | Inr v \<Rightarrow> Inr v)"

text \<open>\<open>str.isspace\<close> on one character, for the code points below 256.\<close>

definition is_space :: "char \<Rightarrow> bool" where
  "is_space c = (of_char c \<in> {9, 10, 11, 12, 13, 28, 29, 30, 31, 32, 133, 160 :: nat})"

text \<open>\<open>s.strip()\<close>.\<close>

definition py_strip :: "string \<Rightarrow> string" where
  "py_strip s = rev (dropWhile is_space (rev (dropWhile is_space s)))"

text \<open>A slice bound \<open>i\<close> on a sequence of length \<open>n\<close>: a negative bound counts from the
  end, and the result is clamped to \<open>0..n\<close>.\<close>

definition py_index :: "nat \<Rightarrow> int \<Rightarrow> nat" where
  "py_index n i =
     (if i < 0 then (if int n + i < 0 then 0 else nat (int n + i)) else min (nat i) n)"

text \<open>\<open>text[i:j]\<close>.\<close>

definition py_slice :: "'a list \<Rightarrow> int \<Rightarrow> int \<Rightarrow> 'a list" where
  "py_slice text i j =
     (let a = py_index (length text) i; b = py_index (length text) j
      in take (b - a) (drop a text))"

text \<open>\<open>text.rfind(sub, i, j)\<close>: the highest index \<open>p\<close> such that \<open>sub\<close> lies within
  \<open>text[i:j]\<close> starting at \<open>p\<close>, and \<open>-1\<close> when there is none. CPython adjusts the
  bounds as for a slice, except that a start beyond the end of the text is left as it is.\<close>

definition py_find_start :: "nat \<Rightarrow> int \<Rightarrow> nat" where
  "py_find_start n i = (if i < 0 then (if int n + i < 0 then 0 else nat (int n + i)) else nat i)"

definition py_rfind :: "string \<Rightarrow> string \<Rightarrow> int \<Rightarrow> int \<Rightarrow> int" where
  "py_rfind text sub i j =
     (let a = py_find_start (length text) i; b = py_index (length text) j; m = length sub
      in if b < a + m then - 1
         else (case filter (\<lambda>p. take m (drop p text) = sub) (rev [a ..< b - m + 1]) of
                 [] \<Rightarrow> - 1
               | p # _ \<Rightarrow> int p))"

text \<open>\<open>s.lower()\<close>, for the code points below 256.\<close>

definition py_lower_char :: "char \<Rightarrow> char" where
  "py_lower_char c =
     (let k = (of_char c :: nat)
      in if (65 \<le> k \<and> k \<le> 90) \<or> (192 \<le> k \<and> k \<le> 222 \<and> k \<noteq> 215)
         then char_of (k + 32) else c)"

definition py_lower :: "string \<Rightarrow> string" where
  "py_lower s = map py_lower_char s"

text \<open>\<open>s.endswith(suffix)\<close>.\<close>

definition py_endswith :: "string \<Rightarrow> string \<Rightarrow> bool" where
  "py_endswith s suffix =
     (length suffix \<le> length s \<and> drop (length s - length suffix) s = suffix)"

text \<open>\<open>s.split()\<close>: the maximal runs of characters that are not whitespace.\<close>

fun split_words :: "string \<Rightarrow> string \<Rightarrow> string list" where
  "split_words [] word = (if word = [] then [] else [word])"
| "split_words (c # cs) word =
     (if is_space c then (if word = [] then split_words cs [] else word # split_words cs [])
      else split_words cs (word @ [c]))"

definition py_split :: "string \<Rightarrow> string list" where
  "py_split s = split_words s []"

text \<open>\<open>sep.join(parts)\<close>.\<close>

fun py_join :: "string \<Rightarrow> string list \<Rightarrow> string" where
  "py_join sep [] = []"
| "py_join sep [p] = p"
| "py_join sep (p # q # ps) = p @ sep @ py_join sep (q # ps)"

text \<open>\<open>str(n)\<close> for a natural number: its decimal digits.\<close>

fun str_nat :: "nat \<Rightarrow> string" where
  "str_nat n =
     (if n < 10 then [char_of (48 + n)] else str_nat (n div 10) @ [char_of (48 + n mod 10)])"

declare str_nat.simps [simp del]

text \<open>\<open>x or default\<close> on an optional integer argument: \<open>None\<close> and \<open>0\<close> are falsy.\<close>

definition py_or :: "int option \<Rightarrow> int \<Rightarrow> int" where
  "py_or x d = (case x of None \<Rightarrow> d | Some v \<Rightarrow> if v = 0 then d else v)"

section \<open>Settings (config.py)\<close>

definition CHUNK_SIZE :: int where "CHUNK_SIZE = 1000"
definition CHUNK_OVERLAP :: int where "CHUNK_OVERLAP = 200"
definition MAX_FILE_SIZE :: int where "MAX_FILE_SIZE = 50 * 1024 * 1024"
definition UPLOAD_DIR :: string where "UPLOAD_DIR = ''uploads''"

section \<open>Text segmenter (pdf\_processor.py)\<close>

subsection \<open>chunk\_text\<close>

text \<open>The \<open>for punct in ['. ', '! ', '? ']\<close> loop: the first pattern that \<open>rfind\<close> locates
  between \<open>start\<close> and \<open>end\<close> moves the boundary to just after its punctuation mark.\<close>

fun find_boundary :: "string \<Rightarrow> string list \<Rightarrow> int \<Rightarrow> int \<Rightarrow> int" where
  "find_boundary text [] start end = end"
| "find_boundary text (punct # puncts) start end =
     (let last_punct = py_rfind text punct start end
      in if last_punct \<noteq> - 1 then last_punct + 1 else find_boundary text puncts start end)"

text \<open>The boundary \<open>end\<close> of the window that starts at \<open>start\<close> (one loop iteration, up
  to the slice).\<close>

definition window_end :: "string \<Rightarrow> int \<Rightarrow> int \<Rightarrow> int" where
  "window_end text chunk_size start =
     (let end = start + chunk_size
      in if end < int (length text)
         then find_boundary text [''. '', ''! '', ''? ''] start end
         else end)"

text \<open>The \<open>while start < len(text)\<close> loop. It need not terminate, so the result is an
  option: \<open>None\<close> is the loop that never returns.\<close>

partial_function (option) chunk_loop ::
  "string \<Rightarrow> int \<Rightarrow> int \<Rightarrow> int \<Rightarrow> string list \<Rightarrow> string list option" where
  "chunk_loop text chunk_size overlap start chunks =
     (if start < int (length text) then
        (let end = window_end text chunk_size start;
             chunk = py_strip (py_slice text start end);
             chunks' = (if chunk \<noteq> [] then chunks @ [chunk] else chunks);
             start' = (if end < int (length text) then end - overlap else int (length text))
         in if start' \<ge> int (length text) then Some chunks'
            else chunk_loop text chunk_size overlap start' chunks')
      else Some chunks)"

declare chunk_loop.simps [code]

definition chunk_text :: "string \<Rightarrow> int option \<Rightarrow> int option \<Rightarrow> string list option" where
  "chunk_text text chunk_size overlap =
     (let chunk_size = py_or chunk_size CHUNK_SIZE;
          overlap = py_or overlap CHUNK_OVERLAP
      in if int (length text) \<le> chunk_size then Some [text]
         else chunk_loop text chunk_size overlap 0 [])"

subsection \<open>The windows of a run\<close>

text \<open>What one iteration emits for the window that starts at \<open>start\<close>, before the test for
  emptiness: \<open>text[start:end].strip()\<close>; and the start of the window after it,
  \<open>end - overlap if end < len(text) else len(text)\<close>.\<close>

definition window_chunk :: "string \<Rightarrow> int \<Rightarrow> int \<Rightarrow> string" where
  "window_chunk t chunk_size start =
     py_strip (py_slice t start (window_end t chunk_size start))"

definition next_start :: "string \<Rightarrow> int \<Rightarrow> int \<Rightarrow> int \<Rightarrow> int" where
  "next_start t chunk_size overlap start =
     (let e = window_end t chunk_size start
      in if e < int (length t) then e - overlap else int (length t))"

text \<open>The window starts of a run of the loop from \<open>start\<close>, in order: none when the loop
  is not entered; otherwise \<open>start\<close>, which is the last one when the next start reaches the
  end of the text, and else is followed by the window starts from the next start.\<close>

fun window_starts :: "string \<Rightarrow> int \<Rightarrow> int \<Rightarrow> int \<Rightarrow> int list \<Rightarrow> bool" where
  "window_starts t chunk_size overlap start [] = (\<not> start < int (length t))"
| "window_starts t chunk_size overlap start (s # rest) =
     (s = start \<and> start < int (length t) \<and>
      (if next_start t chunk_size overlap start \<ge> int (length t) then rest = []
       else window_starts t chunk_size overlap (next_start t chunk_size overlap start) rest))"

subsection \<open>The boundary rule in the words of the specification\<close>

text \<open>The specification's reading of one step, for comparison with \<open>window_end\<close>: the
  window is the index interval from \<open>start\<close> up to, and excluding, \<open>start + chunkSize\<close>; a
  candidate is a position \<open>p\<close> of the text that holds the punctuation mark, followed by a
  space, both inside the window.\<close>

definition occurs_at :: "string \<Rightarrow> char \<Rightarrow> nat \<Rightarrow> bool" where
  "occurs_at text mark p =
     (p + 1 < length text \<and> text ! p = mark \<and> text ! (p + 1) = CHR '' '')"

definition last_in_window :: "string \<Rightarrow> char \<Rightarrow> int \<Rightarrow> int \<Rightarrow> nat option" where
  "last_in_window text mark lo hi =
     (case filter (\<lambda>p. lo \<le> int p \<and> int p + 2 \<le> hi \<and> occurs_at text mark p)
             (rev [0 ..< length text]) of
        [] \<Rightarrow> None
      | p # _ \<Rightarrow> Some p)"

definition snapped_boundary :: "string \<Rightarrow> int \<Rightarrow> int \<Rightarrow> int" where
  "snapped_boundary text chunk_size start =
     (let boundary = start + chunk_size
      in if boundary < int (length text) then
           (case last_in_window text (CHR ''.'') start boundary of
              Some p \<Rightarrow> int p + 1
            | None \<Rightarrow>
               (case last_in_window text (CHR ''!'') start boundary of
                  Some p \<Rightarrow> int p + 1
                | None \<Rightarrow>
                   (case last_in_window text (CHR ''?'') start boundary of
                      Some p \<Rightarrow> int p + 1
                    | None \<Rightarrow> boundary)))
         else boundary)"

subsection \<open>extract\_text\_from\_pdf\<close>

text \<open>Field names of the dictionaries and rows carry a prefix, since several of them share
  their keys: \<open>pg_\<close> a page, \<open>md_\<close> chunk metadata, \<open>pl_\<close> a point's payload, \<open>pt_\<close> a
  point, \<open>doc_\<close> a Document row, \<open>dc_\<close> a DocumentChunk row, \<open>hit_\<close> a search result,
  \<open>src_\<close> a source, \<open>up_\<close> an uploaded file, \<open>resp_\<close> an upload response.\<close>

record page =
  pg_page_number :: nat
  pg_content :: string

text \<open>\<open>for page_num, page in enumerate(pdf_reader.pages)\<close>, over the texts that
  \<open>page.extract_text()\<close> gives.\<close>

fun extract_pages :: "nat \<Rightarrow> string list \<Rightarrow> page list" where
  "extract_pages page_num [] = []"
| "extract_pages page_num (text # texts) =
     (if py_strip text \<noteq> []
      then \<lparr>pg_page_number = page_num + 1, pg_content = py_strip text\<rparr>
             # extract_pages (page_num + 1) texts
      else extract_pages (page_num + 1) texts)"

text \<open>The argument is what opening and reading the file gives: the texts of its pages, or
  the exception, which is logged and raised again.\<close>

definition extract_text_from_pdf :: "exn + string list \<Rightarrow> exn + page list" where
  "extract_text_from_pdf reader =
     (case reader of Inl e \<Rightarrow> Inl e | Inr texts \<Rightarrow> Inr (extract_pages 0 texts))"

section \<open>Data model (models.py and the dictionaries of pdf\_processor.py)\<close>

text \<open>The metadata dictionary that \<open>process_pdf\<close> builds for every chunk.\<close>

record chunk_meta =
  md_chunk_uuid :: string
  md_chunk_id :: string
  md_document_id :: string
  md_page_number :: nat
  md_chunk_index :: nat
  md_content :: string

text \<open>A Qdrant point: \<open>PointStruct(id, vector, payload)\<close>. Embedding vectors are opaque
  values of a type \<open>'v\<close>.\<close>

record payload =
  pl_document_id :: string
  pl_page_number :: nat
  pl_chunk_index :: nat
  pl_content :: string
  pl_filename :: string
  pl_chunk_id :: string

record 'v point =
  pt_id :: string
  pt_vector :: 'v
  pt_payload :: payload

text \<open>Rows of the tables \<open>documents\<close> and \<open>document_chunks\<close>.\<close>

record document =
  doc_id :: string
  doc_filename :: string
  doc_original_filename :: string
  doc_file_size :: int
  doc_content_hash :: string
  doc_page_count :: "nat option"
  doc_processing_status :: string
  doc_error_message :: "string option"
  doc_chunk_count :: nat

record document_chunk =
  dc_document_id :: string
  dc_chunk_index :: nat
  dc_page_number :: nat
  dc_content_preview :: string
  dc_vector_id :: string

section \<open>State and collaborators\<close>

text \<open>What a run does to the stores, in order: a commit of the session (with the vector
  ids of the chunk rows it writes), the batched upsert (with the ids of its points), and
  \<open>db.add\<close> of a chunk row (with its vector id).\<close>

datatype event =
    Commit "string list"
  | Upsert "string list"
  | AddChunk string

text \<open>
  The state that the operations read and write:
  \<^item> \<open>documents\<close>: the \<open>documents\<close> table as the session sees it (attribute assignments
    included); \<open>stored_documents\<close>: the table as of the last commit;
  \<^item> \<open>new_chunks\<close>: chunk rows added to the session and not yet committed;
    \<open>stored_chunks\<close>: the committed \<open>document_chunks\<close> table;
  \<^item> \<open>points\<close>: the Qdrant collection;
  \<^item> \<open>files\<close>: the paths present in the upload directory;
  \<^item> \<open>tasks\<close>: the background tasks scheduled, as the arguments \<open>(file_path, document_id)\<close>
    of \<open>process_pdf\<close>;
  \<^item> \<open>trace\<close>: the events so far.
  Commits and queries of the relational store are taken to succeed.
\<close>

record 'v state =
  documents :: "document list"
  stored_documents :: "document list"
  new_chunks :: "document_chunk list"
  stored_chunks :: "document_chunk list"
  points :: "'v point list"
  files :: "string list"
  tasks :: "(string \<times> string) list"
  trace :: "event list"

text \<open>
  The collaborators, as the code calls them:
  \<^item> \<open>read_pdf path\<close>: the page texts that pypdf extracts from the file, or its failure;
  \<^item> \<open>encode texts\<close>: \<open>embedding_model.encode(texts).tolist()\<close>;
  \<^item> \<open>upsert_error ps\<close>, \<open>search_error\<close>: the exception, if any, of the Qdrant client on
    an upsert of \<open>ps\<close> and on a search;
  \<^item> \<open>similarity q v\<close>: the score Qdrant gives vector \<open>v\<close> for the query vector \<open>q\<close>;
  \<^item> \<open>generate_content prompt\<close>: the text of the Gemini response, or the failure;
  \<^item> \<open>uuid4 k\<close>: the \<open>k\<close>-th identifier that \<open>uuid.uuid4()\<close> draws in a run;
  \<^item> \<open>elapsed_ms\<close>: the milliseconds the clock measures around the generation call;
  \<^item> \<open>sha256 blocks\<close>: the hex digest after \<open>update\<close> on each block in turn;
  \<^item> \<open>disk_error path\<close>: the exception, if any, of writing and reading back \<open>path\<close>.
\<close>

record 'v env =
  read_pdf :: "string \<Rightarrow> exn + string list"
  encode :: "string list \<Rightarrow> exn + 'v list"
  upsert_error :: "'v point list \<Rightarrow> exn option"
  search_error :: "exn option"
  similarity :: "'v \<Rightarrow> 'v \<Rightarrow> int"
  generate_content :: "string \<Rightarrow> exn + string"
  uuid4 :: "nat \<Rightarrow> string"
  elapsed_ms :: int
  sha256 :: "string list \<Rightarrow> string"
  disk_error :: "string \<Rightarrow> exn option"

text \<open>\<open>db.commit()\<close>: the session's documents and its new chunk rows are written.\<close>

definition commit :: "'v state \<Rightarrow> 'v state" where
  "commit s =
     s\<lparr>stored_documents := documents s,
       stored_chunks := stored_chunks s @ new_chunks s,
       new_chunks := [],
       trace := trace s @ [Commit (map dc_vector_id (new_chunks s))]\<rparr>"

text \<open>\<open>db.add(chunk)\<close>.\<close>

definition db_add_chunk :: "'v state \<Rightarrow> document_chunk \<Rightarrow> 'v state" where
  "db_add_chunk s chunk =
     s\<lparr>new_chunks := new_chunks s @ [chunk], trace := trace s @ [AddChunk (dc_vector_id chunk)]\<rparr>"

text \<open>Assignments to the attributes of the row that \<open>.first()\<close> returned: the first row
  with the identifier.\<close>

fun update_first :: "('a \<Rightarrow> bool) \<Rightarrow> ('a \<Rightarrow> 'a) \<Rightarrow> 'a list \<Rightarrow> 'a list" where
  "update_first P f [] = []"
| "update_first P f (x # xs) = (if P x then f x # xs else x # update_first P f xs)"

definition set_document :: "string \<Rightarrow> (document \<Rightarrow> document) \<Rightarrow> 'v state \<Rightarrow> 'v state" where
  "set_document document_id f s =
     s\<lparr>documents := update_first (\<lambda>d. doc_id d = document_id) f (documents s)\<rparr>"

text \<open>\<open>qdrant_client.upsert\<close>: insert, or replace the point with the same id.\<close>

fun upsert_point :: "'v point \<Rightarrow> 'v point list \<Rightarrow> 'v point list" where
  "upsert_point p [] = [p]"
| "upsert_point p (q # qs) = (if pt_id q = pt_id p then p # qs else q # upsert_point p qs)"

definition qdrant_upsert :: "'v point list \<Rightarrow> 'v state \<Rightarrow> 'v state" where
  "qdrant_upsert ps s =
     s\<lparr>points := foldl (\<lambda>collection p. upsert_point p collection) (points s) ps,
       trace := trace s @ [Upsert (map pt_id ps)]\<rparr>"

subsection \<open>The order of the store operations\<close>

text \<open>A sequence of events keeps vectors ahead of rows when every chunk row that is added
  or committed has its vector id among the ids that are known (those of rows that were
  pending before the sequence) or that an earlier upsert of the sequence wrote.\<close>

fun upserted_first :: "string list \<Rightarrow> event list \<Rightarrow> bool" where
  "upserted_first known [] = True"
| "upserted_first known (Upsert ids # evs) = upserted_first (ids @ known) evs"
| "upserted_first known (AddChunk v # evs) = (v \<in> set known \<and> upserted_first known evs)"
| "upserted_first known (Commit vs # evs) = (set vs \<subseteq> set known \<and> upserted_first known evs)"

fun is_upsert :: "event \<Rightarrow> bool" where
  "is_upsert (Upsert ids) = True"
| "is_upsert (Commit vs) = False"
| "is_upsert (AddChunk v) = False"

section \<open>Ingestion pipeline (pdf\_processor.py)\<close>

text \<open>The inner loop \<open>for chunk_idx, chunk in enumerate(page_chunks)\<close>. The list
  \<open>all_chunks\<close> of the source grows in step with \<open>chunk_metadata\<close> and holds its contents,
  so its length is that of \<open>chunk_metadata\<close>.\<close>

fun add_page_chunks ::
  "'v env \<Rightarrow> string \<Rightarrow> page \<Rightarrow> nat \<Rightarrow> string list \<Rightarrow> chunk_meta list \<Rightarrow> chunk_meta list" where
  "add_page_chunks env document_id page chunk_idx [] chunk_metadata = chunk_metadata"
| "add_page_chunks env document_id page chunk_idx (chunk # page_chunks) chunk_metadata =
     add_page_chunks env document_id page (chunk_idx + 1) page_chunks
       (chunk_metadata @
        [\<lparr>md_chunk_uuid = uuid4 env (length chunk_metadata),
          md_chunk_id =
            document_id @ ''_'' @ str_nat (pg_page_number page) @ ''_'' @ str_nat chunk_idx,
          md_document_id = document_id,
          md_page_number = pg_page_number page,
          md_chunk_index = length chunk_metadata,
          md_content = chunk\<rparr>])"

text \<open>The outer loop \<open>for page in pages\<close>; \<open>None\<close> when \<open>chunk_text\<close> does not return.\<close>

fun collect_chunks ::
  "'v env \<Rightarrow> string \<Rightarrow> page list \<Rightarrow> chunk_meta list \<Rightarrow> chunk_meta list option" where
  "collect_chunks env document_id [] chunk_metadata = Some chunk_metadata"
| "collect_chunks env document_id (page # pages) chunk_metadata =
     (case chunk_text (pg_content page) None None of
        None \<Rightarrow> None
      | Some page_chunks \<Rightarrow>
          collect_chunks env document_id pages
            (add_page_chunks env document_id page 0 page_chunks chunk_metadata))"

text \<open>One point per pair of \<open>zip(chunk_metadata, embeddings)\<close>.\<close>

definition make_point :: "string \<Rightarrow> document \<Rightarrow> chunk_meta \<times> 'v \<Rightarrow> 'v point" where
  "make_point document_id document me =
     (case me of (metadata, embedding) \<Rightarrow>
        \<lparr>pt_id = md_chunk_uuid metadata,
         pt_vector = embedding,
         pt_payload =
           \<lparr>pl_document_id = document_id,
            pl_page_number = md_page_number metadata,
            pl_chunk_index = md_chunk_index metadata,
            pl_content = md_content metadata,
            pl_filename = doc_filename document,
            pl_chunk_id = md_chunk_id metadata\<rparr>\<rparr>)"

definition build_points ::
  "string \<Rightarrow> document \<Rightarrow> chunk_meta list \<Rightarrow> 'v list \<Rightarrow> 'v point list" where
  "build_points document_id document chunk_metadata embeddings =
     map (make_point document_id document) (zip chunk_metadata embeddings)"

text \<open>The \<open>DocumentChunk\<close> row of one chunk.\<close>

definition make_chunk_row :: "string \<Rightarrow> chunk_meta \<Rightarrow> document_chunk" where
  "make_chunk_row document_id metadata =
     \<lparr>dc_document_id = document_id,
      dc_chunk_index = md_chunk_index metadata,
      dc_page_number = md_page_number metadata,
      dc_content_preview =
        (if length (md_content metadata) > 200
         then py_slice (md_content metadata) 0 200 @ ''...''
         else md_content metadata),
      dc_vector_id = md_chunk_uuid metadata\<rparr>"

text \<open>The \<open>except\<close> handler of \<open>process_pdf\<close> when \<open>document\<close> is bound to a row.\<close>

definition fail_document :: "string \<Rightarrow> exn \<Rightarrow> 'v state \<Rightarrow> (exn + bool) \<times> 'v state" where
  "fail_document document_id e s =
     (Inr False,
      commit (set_document document_id
        (\<lambda>d. d\<lparr>doc_processing_status := ''failed'', doc_error_message := Some (str_exn e)\<rparr>) s))"

text \<open>The message of the \<open>AttributeError\<close> that an attribute assignment on \<open>None\<close>
  raises (the quote is character 39).\<close>

definition NONE_HAS_NO_STATUS :: string where
  "NONE_HAS_NO_STATUS =
     [CHR 0x27] @ ''NoneType'' @ [CHR 0x27] @ '' object has no attribute '' @
     [CHR 0x27] @ ''processing_status'' @ [CHR 0x27]"

text \<open>\<open>process_pdf\<close>. The result is \<open>None\<close> when the run does not return, and otherwise
  what the call gives its caller (\<open>Inl\<close>: the exception that leaves the function) with the
  state it leaves. When the lookup finds no row, \<open>document\<close> is \<open>None\<close>, the \<open>ValueError\<close>
  is raised inside the \<open>try\<close>, and the handler's own first statement,
  \<open>document.processing_status = 'failed'\<close>, raises.\<close>

definition process_pdf ::
  "'v env \<Rightarrow> string \<Rightarrow> string \<Rightarrow> 'v state \<Rightarrow> ((exn + bool) \<times> 'v state) option" where
  "process_pdf env file_path document_id s =
     (case find (\<lambda>d. doc_id d = document_id) (documents s) of
        None \<Rightarrow>
          Some (Inl (AttributeError NONE_HAS_NO_STATUS), s)
      | Some document \<Rightarrow>
          (let s1 = commit (set_document document_id
                      (\<lambda>d. d\<lparr>doc_processing_status := ''processing''\<rparr>) s)
           in case extract_text_from_pdf (read_pdf env file_path) of
                Inl e \<Rightarrow> Some (fail_document document_id e s1)
              | Inr pages \<Rightarrow>
                  (let s2 = set_document document_id
                              (\<lambda>d. d\<lparr>doc_page_count := Some (length pages)\<rparr>) s1
                   in case collect_chunks env document_id pages [] of
                        None \<Rightarrow> None
                      | Some chunk_metadata \<Rightarrow>
                          (case encode env (map md_content chunk_metadata) of
                             Inl e \<Rightarrow> Some (fail_document document_id e s2)
                           | Inr embeddings \<Rightarrow>
                               (let ps = build_points document_id document
                                           chunk_metadata embeddings
                                in case upsert_error env ps of
                                     Some e \<Rightarrow> Some (fail_document document_id e s2)
                                   | None \<Rightarrow>
                                       (let s3 = qdrant_upsert ps s2;
                                            s4 = foldl db_add_chunk s3
                                                   (map (make_chunk_row document_id)
                                                      chunk_metadata);
                                            s5 = commit (set_document document_id
                                                   (\<lambda>d. d\<lparr>doc_processing_status := ''completed'',
                                                          doc_chunk_count :=
                                                            length chunk_metadata\<rparr>) s4)
                                        in Some (Inr True, s5)))))))"

section \<open>Upload and deduplication (main.py, pdf\_processor.py)\<close>

text \<open>\<open>iter(lambda: f.read(4096), b"")\<close>: the blocks read until the empty one.\<close>

function read_blocks :: "nat \<Rightarrow> 'a list \<Rightarrow> 'a list list" where
  "read_blocks n bytes =
     (if n = 0 \<or> bytes = [] then [] else take n bytes # read_blocks n (drop n bytes))"
  by pat_completeness auto
termination
  by (relation "measure (\<lambda>(n, bytes). length bytes)") auto

definition calculate_file_hash :: "'v env \<Rightarrow> string \<Rightarrow> string" where
  "calculate_file_hash env content = sha256 env (read_blocks 4096 content)"

text \<open>The uploaded file (\<open>file.size\<close> may be absent), the response model, and what the
  route gives the web framework when it raises: an \<open>HTTPException\<close> with status code and
  detail, or an exception raised outside the \<open>try\<close>.\<close>

record upload_file =
  up_filename :: string
  up_size :: "int option"
  up_content :: string

record upload_response =
  resp_id :: string
  resp_filename :: string
  resp_status :: string
  resp_message :: string

datatype http_error = HTTPException nat string | Unhandled exn

text \<open>The message of the \<open>TypeError\<close> that \<open>file.size > settings.MAX_FILE_SIZE\<close> raises
  when \<open>file.size\<close> is \<open>None\<close> (the quote is character 39).\<close>

definition SIZE_IS_NONE :: string where
  "SIZE_IS_NONE =
     [CHR 0x27] @ ''>'' @ [CHR 0x27] @ '' not supported between instances of '' @
     [CHR 0x27] @ ''NoneType'' @ [CHR 0x27] @ '' and '' @ [CHR 0x27] @ ''int'' @ [CHR 0x27]"

text \<open>\<open>upload_document\<close>; \<open>file_id\<close> is the identifier that \<open>uuid.uuid4()\<close> draws.\<close>

definition upload_document ::
  "'v env \<Rightarrow> string \<Rightarrow> upload_file \<Rightarrow> 'v state \<Rightarrow> (http_error + upload_response) \<times> 'v state" where
  "upload_document env file_id file s =
     (if \<not> py_endswith (py_lower (up_filename file)) ''.pdf''
      then (Inl (HTTPException 400 ''Only PDF files are allowed''), s)
      else case up_size file of
        None \<Rightarrow> (Inl (Unhandled (TypeError SIZE_IS_NONE)), s)
      | Some file_size \<Rightarrow>
          if file_size > MAX_FILE_SIZE then (Inl (HTTPException 400 ''File too large''), s)
          else
            (let filename = file_id @ ''_'' @ up_filename file;
                 file_path = UPLOAD_DIR @ ''/'' @ filename
             in case disk_error env file_path of
                  Some e \<Rightarrow> (Inl (HTTPException 500 ''Error uploading document''), s)
                | None \<Rightarrow>
                    (let s1 = s\<lparr>files := List.insert file_path (files s)\<rparr>;
                         file_hash = calculate_file_hash env (up_content file)
                     in case find (\<lambda>d. doc_content_hash d = file_hash) (documents s1) of
                          Some existing_doc \<Rightarrow>
                            (Inr \<lparr>resp_id = doc_id existing_doc,
                                  resp_filename = doc_filename existing_doc,
                                  resp_status = ''already_exists'',
                                  resp_message = ''Document already uploaded''\<rparr>,
                             s1\<lparr>files := removeAll file_path (files s1)\<rparr>)
                        | None \<Rightarrow>
                            (let document =
                                   \<lparr>doc_id = file_id,
                                    doc_filename = filename,
                                    doc_original_filename = up_filename file,
                                    doc_file_size = file_size,
                                    doc_content_hash = file_hash,
                                    doc_page_count = None,
                                    doc_processing_status = ''pending'',
                                    doc_error_message = None,
                                    doc_chunk_count = 0\<rparr>;
                                 s2 = commit (s1\<lparr>documents := documents s1 @ [document]\<rparr>);
                                 s3 = s2\<lparr>tasks := tasks s2 @ [(file_path, file_id)]\<rparr>
                             in (Inr \<lparr>resp_id = file_id,
                                      resp_filename = up_filename file,
                                      resp_status = ''uploaded'',
                                      resp_message =
                                        ''Document uploaded successfully and processing started''\<rparr>,
                                 s3)))))"

section \<open>Similarity search (pdf\_processor.py)\<close>

text \<open>The part of the Qdrant client that the search uses. A \<open>FieldCondition\<close> with a
  \<open>MatchValue\<close> holds for a payload whose entry under the key is the value; a \<open>Filter\<close>
  built with \<open>must=[...]\<close> holds when every condition of the list holds (Qdrant's \<open>must\<close>
  is a conjunction; its disjunction is \<open>should\<close>). A search keeps the points whose
  payload passes the filter, orders them by descending score and returns the first
  \<open>limit\<close> of them. Scores are floating-point numbers in Qdrant and the order of equal
  scores is its own; here a score is an integer and equal scores keep the order of the
  collection, so nothing is to be concluded from the order of ties.\<close>

datatype condition = FieldCondition string string

datatype qfilter = Filter "condition list"

definition payload_field :: "payload \<Rightarrow> string \<Rightarrow> string option" where
  "payload_field pl key =
     (if key = ''document_id'' then Some (pl_document_id pl)
      else if key = ''content'' then Some (pl_content pl)
      else if key = ''filename'' then Some (pl_filename pl)
      else if key = ''chunk_id'' then Some (pl_chunk_id pl)
      else None)"

fun condition_holds :: "payload \<Rightarrow> condition \<Rightarrow> bool" where
  "condition_holds pl (FieldCondition key v) = (payload_field pl key = Some v)"

fun filter_holds :: "qfilter option \<Rightarrow> payload \<Rightarrow> bool" where
  "filter_holds None pl = True"
| "filter_holds (Some (Filter must)) pl = list_all (condition_holds pl) must"

definition qdrant_search ::
  "'v env \<Rightarrow> 'v point list \<Rightarrow> 'v \<Rightarrow> qfilter option \<Rightarrow> nat \<Rightarrow> 'v point list" where
  "qdrant_search env collection query_vector query_filter limit =
     take limit
       (sort_key (\<lambda>p. - similarity env query_vector (pt_vector p))
          (filter (\<lambda>p. filter_holds query_filter (pt_payload p)) collection))"

record hit =
  hit_id :: string
  hit_score :: int
  hit_document_id :: string
  hit_page_number :: nat
  hit_chunk_index :: nat
  hit_content :: string
  hit_filename :: string

definition format_hit :: "'v env \<Rightarrow> 'v \<Rightarrow> 'v point \<Rightarrow> hit" where
  "format_hit env query_vector p =
     \<lparr>hit_id = pt_id p,
      hit_score = similarity env query_vector (pt_vector p),
      hit_document_id = pl_document_id (pt_payload p),
      hit_page_number = pl_page_number (pt_payload p),
      hit_chunk_index = pl_chunk_index (pt_payload p),
      hit_content = pl_content (pt_payload p),
      hit_filename = pl_filename (pt_payload p)\<rparr>"

text \<open>The filter that \<open>search_similar_chunks\<close> prepares: none for \<open>None\<close> and for the empty
  list, and otherwise one \<open>must\<close> condition on \<open>document_id\<close> per identifier.\<close>

definition prepare_filter :: "string list option \<Rightarrow> qfilter option" where
  "prepare_filter document_filter =
     (case document_filter of
        None \<Rightarrow> None
      | Some [] \<Rightarrow> None
      | Some (did # dids) \<Rightarrow>
          Some (Filter (map (FieldCondition ''document_id'') (did # dids))))"

definition search_similar_chunks ::
  "'v env \<Rightarrow> 'v state \<Rightarrow> string \<Rightarrow> nat \<Rightarrow> string list option \<Rightarrow> exn + hit list" where
  "search_similar_chunks env s query top_k document_filter =
     try_except
       (case encode env [query] of
          Inl e \<Rightarrow> Inl e
        | Inr [] \<Rightarrow> Inl (IndexError ''index 0 is out of bounds'')
        | Inr (query_embedding # _) \<Rightarrow>
            (let search_filter = prepare_filter document_filter
             in case search_error env of
                  Some e \<Rightarrow> Inl e
                | None \<Rightarrow>
                    Inr (map (format_hit env query_embedding)
                           (qdrant_search env (points s) query_embedding search_filter top_k))))
       (\<lambda>e. Inl e)"

section \<open>Retrieval and answer composer (rag\_service.py)\<close>

definition NO_SOURCES_MESSAGE :: string where
  "NO_SOURCES_MESSAGE =
     ''I couldn't find any relevant information in the uploaded documents to answer your question. Please try rephrasing your question or upload relevant documents.''"

text \<open>One element of the context: \<open>[Document: <filename>, Page: <page_number>]\<close>, a line
  break, and the content.\<close>

definition citation_block :: "hit \<Rightarrow> string" where
  "citation_block chunk =
     ''[Document: '' @ hit_filename chunk @ '', Page: '' @ str_nat (hit_page_number chunk) @
     '']\<newline>'' @ hit_content chunk"

definition PROMPT_HEAD :: string where
  "PROMPT_HEAD =
     ''You are a helpful AI assistant that answers questions based on provided PDF document content. \<newline>\<newline>'' @
     ''Your task is to:\<newline>'' @
     ''1. Answer the user's question using ONLY the information provided in the context below\<newline>'' @
     ''2. Be accurate and specific\<newline>'' @
     ''3. Include citations in your response by referencing the document name and page number\<newline>'' @
     ''4. If the context doesn't contain enough information to answer the question completely, say so clearly\<newline>'' @
     ''5. Do not make up information that isn't in the provided context\<newline>\<newline>'' @
     ''Context from PDF documents:\<newline>''"

definition PROMPT_TAIL :: string where
  "PROMPT_TAIL =
     ''\<newline>\<newline>Please provide a comprehensive answer based on the context above. Include specific citations (document name and page number) for each piece of information you reference.''"

definition create_rag_prompt :: "string \<Rightarrow> hit list \<Rightarrow> bool \<Rightarrow> string" where
  "create_rag_prompt query context_chunks only_answer_if_sources =
     (if context_chunks = [] \<and> only_answer_if_sources then NO_SOURCES_MESSAGE
      else
        (let context_text =
               (if context_chunks \<noteq> []
                then py_join ''\<newline>\<newline>'' (map citation_block context_chunks)
                else [])
         in PROMPT_HEAD @ context_text @ ''\<newline>\<newline>User Question: '' @ query @ PROMPT_TAIL))"

record source =
  src_document_id :: string
  src_document_name :: string
  src_page_number :: nat
  src_chunk_index :: nat
  src_content :: string
  src_relevance_score :: int

definition make_source :: "hit \<Rightarrow> source" where
  "make_source chunk =
     \<lparr>src_document_id = hit_document_id chunk,
      src_document_name = hit_filename chunk,
      src_page_number = hit_page_number chunk,
      src_chunk_index = hit_chunk_index chunk,
      src_content = hit_content chunk,
      src_relevance_score = hit_score chunk\<rparr>"

text \<open>The result dictionary of the composer.\<close>

record answer =
  ans_response :: string
  ans_sources :: "source list"
  ans_context_chunks :: "hit list"
  ans_response_time_ms :: int
  ans_tokens_used :: nat

text \<open>\<open>generate_response\<close> and \<open>answer_question\<close> return the result together with the
  prompts that were sent to the generation provider, in order.\<close>

definition generate_response ::
  "'v env \<Rightarrow> string \<Rightarrow> hit list \<Rightarrow> bool \<Rightarrow> exn + answer \<times> string list" where
  "generate_response env query context_chunks only_answer_if_sources =
     (let prompt = create_rag_prompt query context_chunks only_answer_if_sources
      in try_except
           (case generate_content env prompt of
              Inl e \<Rightarrow> Inl e
            | Inr text \<Rightarrow>
                Inr (\<lparr>ans_response = text,
                      ans_sources = map make_source context_chunks,
                      ans_context_chunks = context_chunks,
                      ans_response_time_ms = elapsed_ms env,
                      ans_tokens_used = (if text \<noteq> [] then length (py_split text) else 0)\<rparr>,
                     [prompt]))
           (\<lambda>e. Inr (\<lparr>ans_response =
                         ''I encountered an error while generating the response: '' @ str_exn e,
                       ans_sources = [],
                       ans_context_chunks = [],
                       ans_response_time_ms = elapsed_ms env,
                       ans_tokens_used = 0\<rparr>,
                      [prompt])))"

definition answer_question ::
  "'v env \<Rightarrow> 'v state \<Rightarrow> string \<Rightarrow> nat \<Rightarrow> string list option \<Rightarrow> bool \<Rightarrow>
     exn + answer \<times> string list" where
  "answer_question env s query top_k document_filter only_answer_if_sources =
     try_except
       (case search_similar_chunks env s query top_k document_filter of
          Inl e \<Rightarrow> Inl e
        | Inr context_chunks \<Rightarrow>
            generate_response env query context_chunks only_answer_if_sources)
       (\<lambda>e. Inr (\<lparr>ans_response =
                     ''I encountered an error while processing your question: '' @ str_exn e,
                   ans_sources = [],
                   ans_context_chunks = [],
                   ans_response_time_ms = 0,
                   ans_tokens_used = 0\<rparr>,
                  []))"

section \<open>Concrete inputs\<close>

text \<open>The text of \<open>test_chunk_text\<close> in tests/test\_pdf\_processor.py, which the test chunks
  with \<open>chunk_size=30, overlap=10\<close>.\<close>

definition test_text :: string where
  "test_text = ''This is a test. This is another sentence. And here's a third one.''"

text \<open>A short sentence followed by forty characters without punctuation.\<close>

definition text7 :: string where
  "text7 = ''A. xxxxxxxxxxxxxxxxxxxxxxxxxxxxxxxxxxxxxxxx''"

text \<open>A page of 1201 characters whose only sentence end is the full stop at index 199.\<close>

definition long_text :: string where
  "long_text = replicate 199 (CHR ''a'') @ ''. '' @ replicate 1000 (CHR ''a'')"

text \<open>Collaborators that succeed: a file of three pages (the second one blank), an
  embedding that is the length of the text, a similarity that is the negated distance, a
  provider that always answers the same, and a stand-in digest that keeps the bytes.\<close>

definition example_env :: "nat env" where
  "example_env =
     \<lparr>read_pdf = (\<lambda>path. Inr [''  Revenue grew 10%.  '', ''   '', ''Costs fell.'']),
      encode = (\<lambda>texts. Inr (map length texts)),
      upsert_error = (\<lambda>ps. None),
      search_error = None,
      similarity = (\<lambda>q v. - \<bar>int q - int v\<bar>),
      generate_content = (\<lambda>prompt. Inr ''Generated answer''),
      uuid4 = (\<lambda>k. ''uuid-'' @ str_nat k),
      elapsed_ms = 42,
      sha256 = concat,
      disk_error = (\<lambda>path. None)\<rparr>"

definition empty_state :: "nat state" where
  "empty_state =
     \<lparr>documents = [], stored_documents = [], new_chunks = [], stored_chunks = [],
      points = [], files = [], tasks = [], trace = []\<rparr>"

text \<open>A collection with one point of document \<open>A\<close> and one of document \<open>B\<close>.\<close>

definition point_of :: "string \<Rightarrow> string \<Rightarrow> nat point" where
  "point_of key document_id =
     \<lparr>pt_id = key, pt_vector = 3,
      pt_payload = \<lparr>pl_document_id = document_id, pl_page_number = 1, pl_chunk_index = 0,
                    pl_content = ''text'', pl_filename = document_id @ ''_doc.pdf'',
                    pl_chunk_id = document_id @ ''_1_0''\<rparr>\<rparr>"

definition index_AB :: "nat state" where
  "index_AB = empty_state\<lparr>points := [point_of ''k1'' ''A'', point_of ''k2'' ''B'']\<rparr>"

text \<open>An upload of a small file named \<open>a.pdf\<close>.\<close>

definition example_file :: upload_file where
  "example_file = \<lparr>up_filename = ''a.pdf'', up_size = Some 1024, up_content = ''%PDF-1.4 example''\<rparr>"

text \<open>The same bytes under another name.\<close>

definition example_copy :: upload_file where
  "example_copy = \<lparr>up_filename = ''copy of a.PDF'', up_size = Some 1024, up_content = ''%PDF-1.4 example''\<rparr>"

text \<open>The state after the first upload, with the identifier \<open>u1\<close> drawn.\<close>

definition uploaded_state :: "nat state" where
  "uploaded_state = snd (upload_document example_env ''u1'' example_file empty_state)"

text \<open>Another file, and the state after it is uploaded second, as \<open>u2\<close>.\<close>

definition other_file :: upload_file where
  "other_file = \<lparr>up_filename = ''b.pdf'', up_size = Some 2048, up_content = ''%PDF-1.4 another''\<rparr>"

definition two_uploads_state :: "nat state" where
  "two_uploads_state = snd (upload_document example_env ''u2'' other_file uploaded_state)"

section \<open>Verification: the text segmenter\<close>

subsection \<open>Termination of chunk\_text\<close>

text \<open>A window that is followed by a window with the same start is repeated for ever: the
  loop does not return.\<close>

lemma chunk_loop_stall_aux:
  assumes run: "chunk_loop text' cs' ov' start' chunks = Some res"
  shows "\<not> (start' < int (length text') \<and> window_end text' cs' start' < int (length text') \<and>
            window_end text' cs' start' - ov' = start')"
proof (rule chunk_loop.raw_induct
    [where P = "\<lambda>t cs ov st ch r. \<not> (st < int (length t) \<and> window_end t cs st < int (length t) \<and>
            window_end t cs st - ov = st)", OF _ run])
  fix f t cs ov start ch r
  assume IH: "\<And>t cs ov st ch r. f t cs ov st ch = Some r \<Longrightarrow>
      \<not> (st < int (length t) \<and> window_end t cs st < int (length t) \<and> window_end t cs st - ov = st)"
    and step: "(if start < int (length t)
      then let end = window_end t cs start;
               chunk = py_strip (py_slice t start end);
               chunks' = if chunk \<noteq> [] then ch @ [chunk] else ch;
               start' = if end < int (length t) then end - ov else int (length t)
           in if int (length t) \<le> start' then Some chunks'
              else f t cs ov start' chunks'
      else Some ch) = Some r"
  show "\<not> (start < int (length t) \<and> window_end t cs start < int (length t) \<and>
            window_end t cs start - ov = start)"
  proof
    assume stall: "start < int (length t) \<and> window_end t cs start < int (length t) \<and>
      window_end t cs start - ov = start"
    with step have "f t cs ov start
        (if py_strip (py_slice t start (window_end t cs start)) \<noteq> []
         then ch @ [py_strip (py_slice t start (window_end t cs start))]
         else ch) = Some r"
      by (simp add: Let_def)
    from IH[OF this] stall show False by simp
  qed
qed

lemma chunk_loop_stall:
  assumes "start < int (length text')"
    and "window_end text' chunk_size start < int (length text')"
    and "window_end text' chunk_size start - overlap = start"
  shows "chunk_loop text' chunk_size overlap start chunks = None"
proof (cases "chunk_loop text' chunk_size overlap start chunks")
  case None
  then show ?thesis .
next
  case (Some res)
  from chunk_loop_stall_aux[OF this] assms show ?thesis by simp
qed

lemma test_text_length: "length test_text = 65"
  by code_simp

lemma test_text_window_0: "window_end test_text 30 0 = 15"
  by code_simp

lemma test_text_window_5: "window_end test_text 30 5 = 15"
  by code_simp

lemma test_text_chunk_0: "py_strip (py_slice test_text 0 15) = ''This is a test.''"
  by code_simp

lemma test_text_first_step:
  "chunk_loop test_text 30 10 0 [] = chunk_loop test_text 30 10 5 [''This is a test.'']"
  by (subst chunk_loop.simps) (simp add: test_text_window_0 test_text_length test_text_chunk_0)

text \<open>
  Claim C2: for every text and every configuration, \<open>chunk_text\<close> terminates, each
  iteration strictly advancing the window start.

  The code does not: on the input of the repository's own test (65 characters,
  \<open>chunk_size=30\<close>, \<open>overlap=10\<close>) the first window \<open>[0, 30)\<close> is cut after the full stop at
  index 14, so the next window starts at \<open>15 - 10 = 5\<close>; the window \<open>[5, 35)\<close> is cut after
  the same full stop, and the next window starts at 5 again. The call never returns.
\<close>

theorem chunk_text_test_input_never_returns:
  "chunk_text test_text (Some 30) (Some 10) = None"
proof -
  have "chunk_loop test_text 30 10 5 [''This is a test.''] = None"
    by (rule chunk_loop_stall) (simp_all add: test_text_window_5 test_text_length)
  then show ?thesis
    by (simp add: chunk_text_def py_or_def test_text_length test_text_first_step)
qed

subsection \<open>The sentence boundary of a window\<close>

lemma take2_drop:
  "(take 2 (drop p xs) = [x, y]) = (p + 1 < length xs \<and> xs ! p = x \<and> xs ! (p + 1) = y)"
proof (cases "p + 1 < length xs")
  case True
  then have "drop p xs = xs ! p # xs ! (p + 1) # drop (p + 2) xs"
    by (metis Cons_nth_drop_Suc Suc_eq_plus1 add_2_eq_Suc' add_lessD1)
  then show ?thesis using True by (simp add: numeral_2_eq_2)
next
  case False
  then have "length (take 2 (drop p xs)) < 2" by simp
  then have "take 2 (drop p xs) \<noteq> [x, y]"
    by (metis length_Cons list.size(3) less_irrefl numeral_2_eq_2)
  with False show ?thesis by simp
qed

lemma upt_as_filter:
  assumes "b \<le> n"
  shows "[a ..< b] = filter (\<lambda>p. a \<le> p \<and> p < b) [0 ..< n]"
proof (rule sorted_distinct_set_unique)
  show "set [a ..< b] = set (filter (\<lambda>p. a \<le> p \<and> p < b) [0 ..< n])"
    using assms by auto
qed (simp_all add: sorted_wrt_filter)

text \<open>With bounds that are not negative, \<open>rfind\<close> of a mark followed by a space is the last
  candidate of the index interval.\<close>

lemma rfind_pair:
  assumes "0 \<le> i" and "0 \<le> j"
  shows "py_rfind text' [m, CHR '' ''] i j =
           (case last_in_window text' m i j of None \<Rightarrow> - 1 | Some p \<Rightarrow> int p)"
proof -
  define n where "n = length text'"
  define a where "a = nat i"
  define b where "b = min (nat j) n"
  let ?P = "\<lambda>p. take 2 (drop p text') = [m, CHR '' '']"
  let ?Q = "\<lambda>p. i \<le> int p \<and> int p + 2 \<le> j \<and> occurs_at text' m p"
  have ab: "py_find_start n i = a" "py_index n j = b"
    using assms by (simp_all add: py_find_start_def py_index_def a_def b_def)
  have Q: "filter ?Q [0 ..< n] = (if b < a + 2 then [] else filter ?P [a ..< b - 1])"
  proof (cases "b < a + 2")
    case True
    have "\<And>p. p < n \<Longrightarrow> \<not> ?Q p"
      using True assms unfolding a_def b_def occurs_at_def n_def by auto
    then have "filter ?Q [0 ..< n] = []" by (auto simp: filter_empty_conv)
    with True show ?thesis by simp
  next
    case False
    have "b - 1 \<le> n" by (simp add: b_def)
    then have "[a ..< b - 1] = filter (\<lambda>p. a \<le> p \<and> p < b - 1) [0 ..< n]"
      by (rule upt_as_filter)
    then have "filter ?P [a ..< b - 1] = filter (\<lambda>p. (a \<le> p \<and> p < b - 1) \<and> ?P p) [0 ..< n]"
      by (simp only: filter_filter conj_commute)
    also have "\<dots> = filter ?Q [0 ..< n]"
    proof (rule filter_cong[OF refl])
      fix p assume "p \<in> set [0 ..< n]"
      then have p: "p < n" by simp
      show "((a \<le> p \<and> p < b - 1) \<and> ?P p) = ?Q p"
        using p False assms unfolding take2_drop occurs_at_def a_def b_def n_def
        by auto
    qed
    finally show ?thesis using False by simp
  qed
  have lw: "last_in_window text' m i j =
      (case rev (filter ?Q [0 ..< n]) of [] \<Rightarrow> None | p # _ \<Rightarrow> Some p)"
    by (simp add: last_in_window_def n_def rev_filter)
  have len2: "length [m, CHR '' ''] = 2" by simp
  have rf: "py_rfind text' [m, CHR '' ''] i j =
      (if b < a + 2 then - 1
       else case filter ?P (rev [a ..< b - 2 + 1]) of [] \<Rightarrow> - 1 | p # _ \<Rightarrow> int p)"
    unfolding py_rfind_def Let_def n_def[symmetric] ab len2 by (rule refl)
  show ?thesis
  proof (cases "b < a + 2")
    case True
    then show ?thesis using Q by (simp only: rf lw if_True rev.simps list.case option.case)
  next
    case False
    then have "b - 2 + 1 = b - 1" by simp
    with False have "py_rfind text' [m, CHR '' ''] i j =
        (case rev (filter ?P [a ..< b - 1]) of [] \<Rightarrow> - 1 | p # _ \<Rightarrow> int p)"
      by (simp only: rf if_False rev_filter)
    moreover have "filter ?Q [0 ..< n] = filter ?P [a ..< b - 1]"
      using Q False by (simp only: if_False)
    ultimately show ?thesis
      by (simp only: lw) (simp split: list.splits)
  qed
qed

text \<open>Where the window start and the tentative boundary are not negative, the code's
  boundary is the one the specification describes.\<close>

lemma window_end_agrees:
  assumes "0 \<le> start" and "0 \<le> start + chunk_size"
  shows "window_end text' chunk_size start = snapped_boundary text' chunk_size start"
  using assms
  by (simp add: window_end_def snapped_boundary_def Let_def rfind_pair split: option.splits)

lemma text7_first_step:
  "chunk_loop text7 30 10 0 [] = chunk_loop text7 30 10 (- 8) [''A.'']"
proof -
  have "window_end text7 30 0 = 2" by code_simp
  moreover have "py_strip (py_slice text7 0 2) = ''A.''" by code_simp
  moreover have "length text7 = 43" by code_simp
  ultimately show ?thesis
    by (subst chunk_loop.simps) simp
qed

text \<open>
  Claim C7: at every chunking step whose tentative boundary \<open>start + chunkSize\<close> falls
  strictly inside the text, the boundary is snapped to just after the last occurrence,
  within the window \<open>[start, start + chunkSize)\<close>, of a full stop followed by a space, else
  of an exclamation mark followed by a space, else of a question mark followed by a space;
  with no candidate in the window the raw cut is kept.

  The code departs from this at a step it reaches with a negative start. On \<open>text7\<close> with
  \<open>chunk_size=30\<close>, \<open>overlap=10\<close> the first window is cut at 2 (after \<open>A.\<close>), so the second
  step starts at \<open>2 - 10 = -8\<close>. Its tentative boundary 22 is inside the text (43
  characters) and the window holds the full stop and space at indices 1 and 2, so the
  boundary of the claim is 2; \<open>rfind\<close> takes the bound \<open>-8\<close> from the end of the text
  (index 35), searches nothing, and the code keeps 22. The call returns three chunks.
\<close>

theorem window_end_negative_start_misses_candidate:
  "chunk_text text7 (Some 30) (Some 10) =
     Some [''A.'', ''xxxxxxxxxxxxxxxxxxxxxxxxxxxxxx'', ''xxxxxxxxxxx'']
   \<and> chunk_loop text7 30 10 0 [] = chunk_loop text7 30 10 (- 8) [''A.'']
   \<and> - 8 + 30 < int (length text7)
   \<and> window_end text7 30 (- 8) = 22
   \<and> snapped_boundary text7 30 (- 8) = 2"
proof -
  have "chunk_text text7 (Some 30) (Some 10) =
     Some [''A.'', ''xxxxxxxxxxxxxxxxxxxxxxxxxxxxxx'', ''xxxxxxxxxxx'']" by code_simp
  moreover have "window_end text7 30 (- 8) = 22" by code_simp
  moreover have "snapped_boundary text7 30 (- 8) = 2" by code_simp
  moreover have "length text7 = 43" by code_simp
  ultimately show ?thesis using text7_first_step by simp
qed

subsection \<open>The default configuration\<close>

text \<open>The loop also stalls with the default \<open>CHUNK_SIZE = 1000\<close> and \<open>CHUNK_OVERLAP = 200\<close>:
  on a text whose only sentence end within the first window is at index 199, the window is
  cut at 200 and the next window starts at \<open>200 - 200 = 0\<close> again.\<close>

lemma long_text_length: "length long_text = 1201"
  by (simp add: long_text_def)

lemma long_text_occurs: "occurs_at long_text (CHR ''.'') p = (p = 199)"
proof (cases "p < 199")
  case True
  then show ?thesis by (simp add: occurs_at_def long_text_def nth_append)
next
  case False
  show ?thesis
  proof (cases "p = 199")
    case True
    then show ?thesis by (simp add: occurs_at_def long_text_def nth_append)
  next
    case ne: False
    show ?thesis
    proof (cases "p = 200")
      case True
      then show ?thesis by (simp add: occurs_at_def long_text_def nth_append)
    next
      case False
      with ne \<open>\<not> p < 199\<close> have "201 \<le> p" by simp
      then have "p < 1201 \<Longrightarrow> long_text ! p = CHR ''a''"
        by (simp add: long_text_def nth_append nth_Cons')
      with ne show ?thesis by (auto simp: occurs_at_def long_text_length)
    qed
  qed
qed

lemma filter_eq_single: "k < n \<Longrightarrow> filter (\<lambda>p. p = k) [0 ..< n] = [k]"
  by (induction n) (auto simp: filter_empty_conv)

lemma long_text_last: "last_in_window long_text (CHR ''.'') 0 1000 = Some 199"
proof -
  have "(\<lambda>p. (0::int) \<le> int p \<and> int p + 2 \<le> 1000 \<and> occurs_at long_text (CHR ''.'') p)
      = (\<lambda>p. p = 199)"
    by (auto simp: long_text_occurs)
  then have "filter (\<lambda>p. (0::int) \<le> int p \<and> int p + 2 \<le> 1000 \<and> occurs_at long_text (CHR ''.'') p)
      [0 ..< 1201] = [199]"
    by (simp add: filter_eq_single)
  then show ?thesis
    by (simp add: last_in_window_def long_text_length flip: rev_filter)
qed

lemma long_text_window: "window_end long_text 1000 0 = 200"
  by (simp add: window_end_agrees snapped_boundary_def long_text_length long_text_last)

lemma chunk_text_default_configuration_never_returns:
  "chunk_text long_text None None = None"
proof -
  have "chunk_loop long_text 1000 200 0 [] = None"
    by (rule chunk_loop_stall) (simp_all add: long_text_window long_text_length)
  then show ?thesis
    by (simp add: chunk_text_def py_or_def CHUNK_SIZE_def CHUNK_OVERLAP_def long_text_length)
qed

lemma dropWhile_id: "xs \<noteq> [] \<Longrightarrow> \<not> P (hd xs) \<Longrightarrow> dropWhile P xs = xs"
  by (cases xs) auto

lemma long_text_strip: "py_strip long_text = long_text"
proof -
  have a: "\<not> is_space (CHR ''a'')" by (simp add: is_space_def)
  have h: "hd long_text = CHR ''a''" "long_text \<noteq> []"
    by (simp_all add: long_text_def hd_append)
  have l: "hd (rev long_text) = CHR ''a''"
    by (simp add: long_text_def hd_rev)
  from h a have "dropWhile is_space long_text = long_text" by (simp add: dropWhile_id)
  moreover from l h a have "dropWhile is_space (rev long_text) = rev long_text"
    by (simp add: dropWhile_id)
  ultimately show ?thesis by (simp add: py_strip_def)
qed

subsection \<open>What chunk\_text emits\<close>

lemma last_dropWhile_nonempty: "dropWhile P xs \<noteq> [] \<Longrightarrow> last (dropWhile P xs) = last xs"
  by (induction xs) (auto split: if_splits)

lemma py_strip_trimmed:
  assumes "py_strip s \<noteq> []"
  shows "\<not> is_space (hd (py_strip s)) \<and> \<not> is_space (last (py_strip s))"
proof -
  define d where "d = dropWhile is_space s"
  define r where "r = dropWhile is_space (rev d)"
  have strip: "py_strip s = rev r" by (simp add: py_strip_def r_def d_def)
  with assms have r: "r \<noteq> []" by simp
  then have d: "d \<noteq> []" by (auto simp: r_def)
  have "\<not> is_space (hd r)" using r unfolding r_def by (rule hd_dropWhile)
  moreover have "\<not> is_space (hd d)" using d unfolding d_def by (rule hd_dropWhile)
  moreover have "last r = hd d"
    using r d by (simp add: r_def last_dropWhile_nonempty last_rev)
  ultimately show ?thesis using r by (simp add: strip hd_rev last_rev)
qed

text \<open>Every chunk that the loop appends is a stripped slice of the text and is not empty.\<close>

lemma chunk_loop_emits:
  assumes run: "chunk_loop text' cs' ov' start' chunks = Some res"
  shows "(\<forall>c \<in> set chunks. c \<noteq> [] \<and> \<not> is_space (hd c) \<and> \<not> is_space (last c) \<and>
            (\<exists>i j. c = py_strip (py_slice text' i j))) \<longrightarrow>
         (\<forall>c \<in> set res. c \<noteq> [] \<and> \<not> is_space (hd c) \<and> \<not> is_space (last c) \<and>
            (\<exists>i j. c = py_strip (py_slice text' i j)))"
proof (rule chunk_loop.raw_induct
    [where P = "\<lambda>t cs ov st ch r.
       (\<forall>c \<in> set ch. c \<noteq> [] \<and> \<not> is_space (hd c) \<and> \<not> is_space (last c) \<and>
            (\<exists>i j. c = py_strip (py_slice t i j))) \<longrightarrow>
       (\<forall>c \<in> set r. c \<noteq> [] \<and> \<not> is_space (hd c) \<and> \<not> is_space (last c) \<and>
            (\<exists>i j. c = py_strip (py_slice t i j)))", OF _ run])
  fix f t cs ov start ch r
  let ?ok = "\<lambda>c. c \<noteq> [] \<and> \<not> is_space (hd c) \<and> \<not> is_space (last c) \<and>
            (\<exists>i j. c = py_strip (py_slice t i j))"
  assume IH: "\<And>t cs ov st ch r. f t cs ov st ch = Some r \<Longrightarrow>
      (\<forall>c \<in> set ch. c \<noteq> [] \<and> \<not> is_space (hd c) \<and> \<not> is_space (last c) \<and>
            (\<exists>i j. c = py_strip (py_slice t i j))) \<longrightarrow>
       (\<forall>c \<in> set r. c \<noteq> [] \<and> \<not> is_space (hd c) \<and> \<not> is_space (last c) \<and>
            (\<exists>i j. c = py_strip (py_slice t i j)))"
    and step: "(if start < int (length t)
      then let end = window_end t cs start;
               chunk = py_strip (py_slice t start end);
               chunks' = if chunk \<noteq> [] then ch @ [chunk] else ch;
               start' = if end < int (length t) then end - ov else int (length t)
           in if int (length t) \<le> start' then Some chunks'
              else f t cs ov start' chunks'
      else Some ch) = Some r"
  show "(\<forall>c \<in> set ch. ?ok c) \<longrightarrow> (\<forall>c \<in> set r. ?ok c)"
  proof
    assume ch: "\<forall>c \<in> set ch. ?ok c"
    define e where "e = window_end t cs start"
    define chunk where "chunk = py_strip (py_slice t start e)"
    define ch' where "ch' = (if chunk \<noteq> [] then ch @ [chunk] else ch)"
    have ch': "\<forall>c \<in> set ch'. ?ok c"
    proof (cases "chunk = []")
      case True
      then show ?thesis using ch by (simp add: ch'_def)
    next
      case False
      then have "?ok chunk"
        using py_strip_trimmed[of "py_slice t start e"] unfolding chunk_def by blast
      then show ?thesis using ch False by (simp add: ch'_def)
    qed
    show "\<forall>c \<in> set r. ?ok c"
    proof (cases "start < int (length t)")
      case False
      with step ch show ?thesis by simp
    next
      case True
      show ?thesis
      proof (cases "int (length t) \<le> (if e < int (length t) then e - ov else int (length t))")
        case stop: True
        have "r = ch'"
          using step True stop unfolding e_def chunk_def ch'_def Let_def
          by (simp split: if_splits)
        then show ?thesis using ch' by simp
      next
        case go: False
        have "f t cs ov (if e < int (length t) then e - ov else int (length t)) ch' = Some r"
          using step True go unfolding e_def chunk_def ch'_def Let_def
          by (simp split: if_splits)
        from IH[OF this] ch' show ?thesis by blast
      qed
    qed
  qed
qed

text \<open>The window starts of a run are determined by the text and the configuration.\<close>

lemma window_starts_unique:
  "window_starts t cs ov st xs \<Longrightarrow> window_starts t cs ov st ys \<Longrightarrow> xs = ys"
proof (induction xs arbitrary: st ys)
  case Nil
  then show ?case by (cases ys) auto
next
  case (Cons x xs)
  then obtain y ys' where ys: "ys = y # ys'" by (cases ys) auto
  show ?case
  proof (cases "next_start t cs ov st \<ge> int (length t)")
    case True
    with Cons.prems ys show ?thesis by simp
  next
    case False
    with Cons.prems ys have "window_starts t cs ov (next_start t cs ov st) xs"
      "window_starts t cs ov (next_start t cs ov st) ys'" "x = y" by simp_all
    with Cons.IH ys show ?thesis by blast
  qed
qed

text \<open>The loop returns the chunks it was given followed by the stripped slices of its
  windows, in order, the empty ones left out.\<close>

lemma chunk_loop_windows:
  assumes run: "chunk_loop text' cs' ov' start' chunks = Some res"
  shows "\<exists>starts. window_starts text' cs' ov' start' starts \<and>
           res = chunks @ filter (\<lambda>c. c \<noteq> []) (map (window_chunk text' cs') starts)"
proof (rule chunk_loop.raw_induct
    [where P = "\<lambda>t cs ov st ch r. \<exists>starts. window_starts t cs ov st starts \<and>
           r = ch @ filter (\<lambda>c. c \<noteq> []) (map (window_chunk t cs) starts)", OF _ run])
  fix f t cs ov start ch r
  assume IH: "\<And>t cs ov st ch r. f t cs ov st ch = Some r \<Longrightarrow>
      \<exists>starts. window_starts t cs ov st starts \<and>
           r = ch @ filter (\<lambda>c. c \<noteq> []) (map (window_chunk t cs) starts)"
    and step: "(if start < int (length t)
      then let end = window_end t cs start;
               chunk = py_strip (py_slice t start end);
               chunks' = if chunk \<noteq> [] then ch @ [chunk] else ch;
               start' = if end < int (length t) then end - ov else int (length t)
           in if int (length t) \<le> start' then Some chunks'
              else f t cs ov start' chunks'
      else Some ch) = Some r"
  show "\<exists>starts. window_starts t cs ov start starts \<and>
           r = ch @ filter (\<lambda>c. c \<noteq> []) (map (window_chunk t cs) starts)"
  proof (cases "start < int (length t)")
    case False
    with step have "r = ch" by simp
    with False have "window_starts t cs ov start [] \<and>
        r = ch @ filter (\<lambda>c. c \<noteq> []) (map (window_chunk t cs) [])" by simp
    then show ?thesis by blast
  next
    case True
    define ch' where "ch' = ch @ filter (\<lambda>c. c \<noteq> []) [window_chunk t cs start]"
    have ch'_eq: "(if py_strip (py_slice t start (window_end t cs start)) \<noteq> []
          then ch @ [py_strip (py_slice t start (window_end t cs start))] else ch) = ch'"
      by (simp add: ch'_def window_chunk_def)
    have ns: "(if window_end t cs start < int (length t) then window_end t cs start - ov
          else int (length t)) = next_start t cs ov start"
      by (simp add: next_start_def Let_def)
    from step True have step': "(if int (length t) \<le> next_start t cs ov start then Some ch'
        else f t cs ov (next_start t cs ov start) ch') = Some r"
      unfolding Let_def ch'_eq ns by simp
    show ?thesis
    proof (cases "int (length t) \<le> next_start t cs ov start")
      case stop: True
      with step' have "r = ch'" by simp
      with True stop have "window_starts t cs ov start [start] \<and>
          r = ch @ filter (\<lambda>c. c \<noteq> []) (map (window_chunk t cs) [start])"
        by (simp add: ch'_def)
      then show ?thesis by blast
    next
      case go: False
      with step' have "f t cs ov (next_start t cs ov start) ch' = Some r" by simp
      from IH[OF this] obtain starts where
        s: "window_starts t cs ov (next_start t cs ov start) starts"
        and r: "r = ch' @ filter (\<lambda>c. c \<noteq> []) (map (window_chunk t cs) starts)"
        by blast
      from True go s r have "window_starts t cs ov start (start # starts) \<and>
          r = ch @ filter (\<lambda>c. c \<noteq> []) (map (window_chunk t cs) (start # starts))"
        by (simp add: ch'_def)
      then show ?thesis by blast
    qed
  qed
qed

lemma window_chunk_trimmed:
  "window_chunk t cs st \<noteq> [] \<Longrightarrow>
     \<not> is_space (hd (window_chunk t cs st)) \<and> \<not> is_space (last (window_chunk t cs st))"
  unfolding window_chunk_def by (rule py_strip_trimmed)

text \<open>
  Claim C10, as amended: when \<open>chunk_text\<close> returns for a text longer than the chunk
  size, the strings it emits are, in order, the stripped slices of the windows of the run
  (from start 0, each window \<open>text[start:end]\<close> ending at the boundary the code computes
  for it and followed by the window at \<open>end - overlap\<close>), those that are empty after
  stripping left out; so every emitted string has no leading or trailing whitespace and is
  not empty. For a text no longer than the chunk size the result is the text itself as the
  only chunk, neither stripped nor skipped.
\<close>

theorem chunk_text_emits_trimmed:
  assumes "chunk_text text' chunk_size overlap = Some chunks"
  shows "(int (length text') \<le> py_or chunk_size CHUNK_SIZE \<longrightarrow> chunks = [text']) \<and>
         (py_or chunk_size CHUNK_SIZE < int (length text') \<longrightarrow>
            (\<exists>starts.
               window_starts text' (py_or chunk_size CHUNK_SIZE) (py_or overlap CHUNK_OVERLAP)
                 0 starts \<and>
               chunks = filter (\<lambda>c. c \<noteq> [])
                          (map (window_chunk text' (py_or chunk_size CHUNK_SIZE)) starts)) \<and>
            (\<forall>c \<in> set chunks. c \<noteq> [] \<and> \<not> is_space (hd c) \<and> \<not> is_space (last c) \<and>
               (\<exists>i j. c = py_strip (py_slice text' i j))))"
proof (cases "int (length text') \<le> py_or chunk_size CHUNK_SIZE")
  case True
  with assms show ?thesis by (simp add: chunk_text_def Let_def)
next
  case False
  with assms have run: "chunk_loop text' (py_or chunk_size CHUNK_SIZE)
      (py_or overlap CHUNK_OVERLAP) 0 [] = Some chunks"
    by (simp add: chunk_text_def Let_def)
  from chunk_loop_windows[OF run] have w: "\<exists>starts.
               window_starts text' (py_or chunk_size CHUNK_SIZE) (py_or overlap CHUNK_OVERLAP)
                 0 starts \<and>
               chunks = filter (\<lambda>c. c \<noteq> [])
                          (map (window_chunk text' (py_or chunk_size CHUNK_SIZE)) starts)"
    by simp
  from chunk_loop_emits[OF run] False w show ?thesis by simp
qed

lemma spaced_text_run:
  "chunk_text ''  ab  cd ef gh ij  '' (Some 6) (Some 2) =
     Some [''ab'', ''cd e'', ''ef gh'', ''gh ij'', ''j'']"
  by code_simp

lemma spaced_starts:
  "window_starts ''  ab  cd ef gh ij  '' 6 2 0 [0, 4, 8, 12, 16]"
  by code_simp

lemma spaced_chunks:
  "map (window_chunk ''  ab  cd ef gh ij  '' 6) [0, 4, 8, 12, 16] =
     [''ab'', ''cd e'', ''ef gh'', ''gh ij'', ''j'']"
  by code_simp

text \<open>A run over a text of 20 characters with \<open>chunk_size=6\<close>, \<open>overlap=2\<close>: five
  windows, starting at 0, 4, 8, 12 and 16.\<close>

theorem chunk_text_emits_trimmed_witness:
  "chunk_text ''  ab  cd ef gh ij  '' (Some 6) (Some 2) =
     Some [''ab'', ''cd e'', ''ef gh'', ''gh ij'', ''j'']
   \<and> window_starts ''  ab  cd ef gh ij  '' 6 2 0 [0, 4, 8, 12, 16]
   \<and> map (window_chunk ''  ab  cd ef gh ij  '' 6) [0, 4, 8, 12, 16] =
        [''ab'', ''cd e'', ''ef gh'', ''gh ij'', ''j'']
   \<and> \<not> is_space (hd ''ab'') \<and> \<not> is_space (last ''cd e'')"
  using chunk_text_emits_trimmed[OF spaced_text_run] spaced_text_run spaced_starts spaced_chunks
  by (simp add: py_or_def)

text \<open>Claim C10 as stated fails for texts no longer than the chunk size: the text is
  returned as it is, with its leading whitespace, and an empty text is emitted too.\<close>

theorem chunk_text_short_text_not_trimmed:
  "chunk_text ''  a '' (Some 100) None = Some [''  a ''] \<and> is_space (hd ''  a '')
   \<and> chunk_text [] None None = Some [[]]"
  by (simp add: chunk_text_def py_or_def CHUNK_SIZE_def is_space_def)

section \<open>Verification: state operations\<close>

text \<open>What each operation does to each component of the state.\<close>

lemma commit_fields:
  "trace (commit s) = trace s @ [Commit (map dc_vector_id (new_chunks s))]"
  "new_chunks (commit s) = []"
  "stored_chunks (commit s) = stored_chunks s @ new_chunks s"
  "stored_documents (commit s) = documents s"
  "documents (commit s) = documents s"
  "points (commit s) = points s"
  "tasks (commit s) = tasks s"
  "files (commit s) = files s"
  by (simp_all add: commit_def)

lemma set_document_fields:
  "trace (set_document i f s) = trace s"
  "new_chunks (set_document i f s) = new_chunks s"
  "stored_chunks (set_document i f s) = stored_chunks s"
  "stored_documents (set_document i f s) = stored_documents s"
  "documents (set_document i f s) = update_first (\<lambda>d. doc_id d = i) f (documents s)"
  "points (set_document i f s) = points s"
  "tasks (set_document i f s) = tasks s"
  "files (set_document i f s) = files s"
  by (simp_all add: set_document_def)

lemma qdrant_upsert_fields:
  "trace (qdrant_upsert ps s) = trace s @ [Upsert (map pt_id ps)]"
  "new_chunks (qdrant_upsert ps s) = new_chunks s"
  "stored_chunks (qdrant_upsert ps s) = stored_chunks s"
  "stored_documents (qdrant_upsert ps s) = stored_documents s"
  "documents (qdrant_upsert ps s) = documents s"
  "points (qdrant_upsert ps s) = foldl (\<lambda>collection p. upsert_point p collection) (points s) ps"
  by (simp_all add: qdrant_upsert_def)

lemma add_chunks_fields:
  "trace (foldl db_add_chunk s rows) = trace s @ map (\<lambda>c. AddChunk (dc_vector_id c)) rows"
  "new_chunks (foldl db_add_chunk s rows) = new_chunks s @ rows"
  "stored_chunks (foldl db_add_chunk s rows) = stored_chunks s"
  "stored_documents (foldl db_add_chunk s rows) = stored_documents s"
  "documents (foldl db_add_chunk s rows) = documents s"
  "points (foldl db_add_chunk s rows) = points s"
  by (induction rows arbitrary: s; simp add: db_add_chunk_def)+

lemma upsert_point_ids: "pt_id ` set (upsert_point p qs) = insert (pt_id p) (pt_id ` set qs)"
  by (induction qs) auto

lemma upsert_points_ids:
  "pt_id ` set (foldl (\<lambda>collection p. upsert_point p collection) qs ps)
     = pt_id ` set qs \<union> pt_id ` set ps"
  by (induction ps arbitrary: qs) (auto simp: upsert_point_ids)



lemma build_points_ids:
  "length embeddings = length chunk_metadata \<Longrightarrow>
     map pt_id (build_points document_id document chunk_metadata embeddings)
       = map md_chunk_uuid chunk_metadata"
proof (induction chunk_metadata arbitrary: embeddings)
  case Nil
  then show ?case by (simp add: build_points_def)
next
  case (Cons m ms)
  then obtain v vs where "embeddings = v # vs" by (cases embeddings) auto
  with Cons show ?case by (simp add: build_points_def make_point_def)
qed

lemma find_append_new: "find P xs = None \<Longrightarrow> P y \<Longrightarrow> find P (xs @ [y]) = Some y"
  by (induction xs) (auto split: if_splits)

lemma find_update_first:
  assumes "find P xs = Some d" and "\<And>x. P x \<Longrightarrow> P (f x)"
  shows "find P (update_first P f xs) = Some (f d)"
  using assms by (induction xs) (auto split: if_splits)

lemma distinct_count_one:
  "distinct xs \<Longrightarrow> x \<in> set xs \<Longrightarrow> length (filter (\<lambda>y. y = x) xs) = 1"
  by (induction xs) (auto simp: filter_empty_conv)




text \<open>Identifiers and fingerprints of the documents, which no run of the pipeline changes.\<close>

lemma find_prefix_keys:
  assumes "map (\<lambda>d. (doc_id d, doc_content_hash d)) xs
             = map (\<lambda>d. (doc_id d, doc_content_hash d)) ys @ later"
    and "find (\<lambda>d. doc_content_hash d = h) ys = Some d"
  shows "\<exists>d'. find (\<lambda>d. doc_content_hash d = h) xs = Some d' \<and> doc_id d' = doc_id d"
  using assms
proof (induction ys arbitrary: xs)
  case Nil
  then show ?case by simp
next
  case (Cons y ys)
  then obtain x xs' where xs: "xs = x # xs'" by (cases xs) auto
  with Cons.prems have k: "doc_id x = doc_id y" "doc_content_hash x = doc_content_hash y"
    and rest: "map (\<lambda>d. (doc_id d, doc_content_hash d)) xs'
                 = map (\<lambda>d. (doc_id d, doc_content_hash d)) ys @ later"
    by simp_all
  show ?case
  proof (cases "doc_content_hash y = h")
    case True
    with Cons.prems(2) xs k show ?thesis by simp
  next
    case False
    with Cons.prems(2) have "find (\<lambda>d. doc_content_hash d = h) ys = Some d" by simp
    from Cons.IH[OF rest this] False k xs show ?thesis by simp
  qed
qed

lemma same_keys_hashes:
  assumes "map (\<lambda>d. (doc_id d, doc_content_hash d)) xs = map (\<lambda>d. (doc_id d, doc_content_hash d)) ys"
  shows "map doc_content_hash xs = map doc_content_hash ys"
proof -
  from assms have "map snd (map (\<lambda>d. (doc_id d, doc_content_hash d)) xs)
      = map snd (map (\<lambda>d. (doc_id d, doc_content_hash d)) ys)" by simp
  then show ?thesis by (simp add: comp_def)
qed

lemma update_first_keys:
  assumes "\<And>d. doc_id (f d) = doc_id d \<and> doc_content_hash (f d) = doc_content_hash d"
  shows "map (\<lambda>d. (doc_id d, doc_content_hash d)) (update_first P f xs)
           = map (\<lambda>d. (doc_id d, doc_content_hash d)) xs"
  using assms by (induction xs) auto

lemma fail_document_keys:
  "fail_document i e s = (r, s') \<Longrightarrow>
     map (\<lambda>d. (doc_id d, doc_content_hash d)) (documents s')
       = map (\<lambda>d. (doc_id d, doc_content_hash d)) (documents s)"
  by (auto simp: fail_document_def commit_fields set_document_fields update_first_keys)

lemma process_pdf_keeps_identities:
  assumes run: "process_pdf env file_path document_id s = Some (r, s')"
  shows "map (\<lambda>d. (doc_id d, doc_content_hash d)) (documents s')
           = map (\<lambda>d. (doc_id d, doc_content_hash d)) (documents s)"
  using run
  by (auto simp: process_pdf_def Let_def commit_fields set_document_fields add_chunks_fields
      qdrant_upsert_fields update_first_keys dest!: fail_document_keys
      split: option.splits sum.splits)

text \<open>Evaluation of the examples.\<close>

lemma example_names_are_pdf:
  "py_endswith (py_lower ''a.pdf'') ''.pdf''"
  "py_endswith (py_lower ''copy of a.PDF'') ''.pdf''"
  by code_simp+

lemma str_nat_examples:
  "str_nat 0 = ''0''" "str_nat 1 = ''1''" "str_nat (Suc 0) = ''1''" "str_nat 3 = ''3''"
  by code_simp+

lemma example_first_upload:
  "upload_document example_env ''u1'' example_file empty_state =
     (Inr \<lparr>resp_id = ''u1'', resp_filename = ''a.pdf'', resp_status = ''uploaded'',
           resp_message = ''Document uploaded successfully and processing started''\<rparr>,
      uploaded_state)"
  by (simp add: uploaded_state_def upload_document_def example_env_def example_file_def
      empty_state_def example_names_are_pdf MAX_FILE_SIZE_def
      Let_def)

lemma uploaded_state_value:
  "uploaded_state =
     \<lparr>documents = [\<lparr>doc_id = ''u1'', doc_filename = ''u1_a.pdf'',
                     doc_original_filename = ''a.pdf'', doc_file_size = 1024,
                     doc_content_hash = ''%PDF-1.4 example'', doc_page_count = None,
                     doc_processing_status = ''pending'', doc_error_message = None,
                     doc_chunk_count = 0\<rparr>],
      stored_documents = [\<lparr>doc_id = ''u1'', doc_filename = ''u1_a.pdf'',
                     doc_original_filename = ''a.pdf'', doc_file_size = 1024,
                     doc_content_hash = ''%PDF-1.4 example'', doc_page_count = None,
                     doc_processing_status = ''pending'', doc_error_message = None,
                     doc_chunk_count = 0\<rparr>],
      new_chunks = [], stored_chunks = [], points = [],
      files = [''uploads/u1_a.pdf''], tasks = [(''uploads/u1_a.pdf'', ''u1'')],
      trace = [Commit []]\<rparr>"
  by (simp add: uploaded_state_def upload_document_def example_env_def example_file_def
      empty_state_def example_names_are_pdf MAX_FILE_SIZE_def
      Let_def calculate_file_hash_def UPLOAD_DIR_def commit_def)

lemma other_name_is_pdf: "py_endswith (py_lower ''b.pdf'') ''.pdf''"
  by code_simp

lemma two_uploads_documents:
  "documents two_uploads_state =
     [\<lparr>doc_id = ''u1'', doc_filename = ''u1_a.pdf'',
       doc_original_filename = ''a.pdf'', doc_file_size = 1024,
       doc_content_hash = ''%PDF-1.4 example'', doc_page_count = None,
       doc_processing_status = ''pending'', doc_error_message = None,
       doc_chunk_count = 0\<rparr>,
      \<lparr>doc_id = ''u2'', doc_filename = ''u2_b.pdf'',
       doc_original_filename = ''b.pdf'', doc_file_size = 2048,
       doc_content_hash = ''%PDF-1.4 another'', doc_page_count = None,
       doc_processing_status = ''pending'', doc_error_message = None,
       doc_chunk_count = 0\<rparr>]"
  "files two_uploads_state = [''uploads/u2_b.pdf'', ''uploads/u1_a.pdf'']"
  by (simp_all add: two_uploads_state_def uploaded_state_value upload_document_def
      example_env_def other_file_def other_name_is_pdf MAX_FILE_SIZE_def
      Let_def calculate_file_hash_def UPLOAD_DIR_def commit_def)

lemma example_third_upload:
  "upload_document example_env ''u3'' example_copy two_uploads_state =
     (Inr \<lparr>resp_id = ''u1'', resp_filename = ''u1_a.pdf'', resp_status = ''already_exists'',
           resp_message = ''Document already uploaded''\<rparr>,
      two_uploads_state)"
  by (simp add: two_uploads_documents upload_document_def example_env_def example_copy_def
      example_names_are_pdf MAX_FILE_SIZE_def Let_def calculate_file_hash_def UPLOAD_DIR_def)

lemma example_contract:
  "encode example_env texts = Inr vs \<Longrightarrow> length vs = length texts"
  by (auto simp: example_env_def)

lemma example_run:
  "\<exists>s'. process_pdf example_env ''uploads/u1_a.pdf'' ''u1'' uploaded_state = Some (Inr True, s')
     \<and> map (\<lambda>p. pl_filename (pt_payload p)) (points s') = [''u1_a.pdf'', ''u1_a.pdf'']
     \<and> map (\<lambda>p. pl_content (pt_payload p)) (points s') = [''Revenue grew 10%.'', ''Costs fell.'']
     \<and> map (\<lambda>p. pl_page_number (pt_payload p)) (points s') = [1, 3]
     \<and> documents s' =
         [\<lparr>doc_id = ''u1'', doc_filename = ''u1_a.pdf'', doc_original_filename = ''a.pdf'',
           doc_file_size = 1024, doc_content_hash = ''%PDF-1.4 example'',
           doc_page_count = Some 2, doc_processing_status = ''completed'',
           doc_error_message = None, doc_chunk_count = 2\<rparr>]
     \<and> trace s' = [Commit [], Commit [], Upsert [''uuid-0'', ''uuid-1''], AddChunk ''uuid-0'',
                    AddChunk ''uuid-1'', Commit [''uuid-0'', ''uuid-1'']]"
  by (simp add: uploaded_state_value process_pdf_def example_env_def extract_text_from_pdf_def
      py_strip_def is_space_def chunk_text_def py_or_def CHUNK_SIZE_def Let_def
      build_points_def make_point_def qdrant_upsert_def make_chunk_row_def db_add_chunk_def
      commit_def set_document_def str_nat_examples)


section \<open>Verification: upload and deduplication\<close>

lemma upload_existing:
  assumes up: "upload_document env file_id file s = (Inr r, s')"
    and ex: "find (\<lambda>d. doc_content_hash d = calculate_file_hash env (up_content file)) (documents s)
              = Some existing_doc"
  shows "r = \<lparr>resp_id = doc_id existing_doc, resp_filename = doc_filename existing_doc,
              resp_status = ''already_exists'', resp_message = ''Document already uploaded''\<rparr>
         \<and> documents s' = documents s \<and> stored_documents s' = stored_documents s
         \<and> tasks s' = tasks s \<and> points s' = points s \<and> stored_chunks s' = stored_chunks s
         \<and> new_chunks s' = new_chunks s \<and> trace s' = trace s"
  using up ex
  by (auto simp: upload_document_def Let_def split: if_splits option.splits)

lemma upload_new:
  assumes up: "upload_document env file_id file s = (Inr r, s')"
    and ex: "find (\<lambda>d. doc_content_hash d = calculate_file_hash env (up_content file)) (documents s)
              = None"
  shows "resp_id r = file_id \<and> resp_status r = ''uploaded''
         \<and> (\<exists>document. documents s' = documents s @ [document] \<and> doc_id document = file_id
              \<and> doc_filename document = file_id @ ''_'' @ up_filename file
              \<and> doc_original_filename document = up_filename file
              \<and> doc_content_hash document = calculate_file_hash env (up_content file))
         \<and> points s' = points s"
  using up ex
  by (auto simp: upload_document_def Let_def commit_def split: if_splits option.splits)


text \<open>An upload that is rejected changes nothing; one that is accepted keeps the rows of
  the documents table, with their identifiers and fingerprints, and at most appends one;
  fingerprints that are distinct stay distinct, after an upload and after a run of the
  pipeline.\<close>

lemma upload_rejected:
  "upload_document env file_id file s = (Inl e, s') \<Longrightarrow> s' = s"
  by (auto simp: upload_document_def Let_def split: if_splits option.splits)

lemma upload_document_extends_identities:
  assumes "upload_document env file_id file s = (r, s')"
  shows "\<exists>later. map (\<lambda>d. (doc_id d, doc_content_hash d)) (documents s')
                 = map (\<lambda>d. (doc_id d, doc_content_hash d)) (documents s) @ later"
  using assms
  by (auto simp: upload_document_def Let_def commit_def split: if_splits option.splits)

lemma upload_document_keeps_distinct:
  assumes up: "upload_document env file_id file s = (r, s')"
    and dist: "distinct (map doc_content_hash (documents s))"
  shows "distinct (map doc_content_hash (documents s'))"
proof (cases r)
  case (Inl e)
  with up have "s' = s" by (simp add: upload_rejected)
  with dist show ?thesis by simp
next
  case (Inr resp)
  let ?P = "\<lambda>d. doc_content_hash d = calculate_file_hash env (up_content file)"
  show ?thesis
  proof (cases "find ?P (documents s)")
    case None
    from upload_new[OF up[unfolded Inr] None] obtain document where
      d: "documents s' = documents s @ [document]"
         "doc_content_hash document = calculate_file_hash env (up_content file)"
      by auto
    from None have "\<forall>x \<in> set (documents s). doc_content_hash x \<noteq> doc_content_hash document"
      by (simp add: find_None_iff d(2))
    with dist d(1) show ?thesis by (auto simp: image_iff)
  next
    case (Some existing_doc)
    from upload_existing[OF up[unfolded Inr] Some] dist show ?thesis by simp
  qed
qed

lemma process_pdf_keeps_distinct:
  assumes "process_pdf env file_path document_id s = Some (r, s')"
    and "distinct (map doc_content_hash (documents s))"
  shows "distinct (map doc_content_hash (documents s'))"
  using same_keys_hashes[OF process_pdf_keeps_identities[OF assms(1)]] assms(2) by simp

text \<open>
  Claim C4: of two uploads whose bytes have the same fingerprint, the second creates no
  Document row and triggers no chunks or vectors; it returns the identity of the stored
  document with status \<open>already_exists\<close>, so that at most one Document exists per
  fingerprint.

  Both calls are uploads that the route accepts and stores (their result is a response).
  The second arrives in any state whose documents table begins with the rows the first
  upload left, by identifier and fingerprint, and may hold later rows: so other uploads
  and runs of the pipeline may lie between the two (lemmas
  \<open>upload_document_extends_identities\<close>, \<open>process_pdf_keeps_identities\<close>). The first
  upload answers with the identifier of the first stored document of the fingerprint, and
  the second answers \<open>already_exists\<close> with the identifier and the stored filename of that
  same document, found in the later state by its fingerprint. The second leaves the
  documents (in the session and as committed), the scheduled tasks, the collection, the
  chunk rows and the events as they were; fingerprints that were distinct stay distinct,
  with exactly one document of this fingerprint.
\<close>

theorem duplicate_upload_is_noop:
  assumes first: "upload_document env id1 file1 s = (Inr r1, s1)"
    and between: "map (\<lambda>d. (doc_id d, doc_content_hash d)) (documents s1')
                    = map (\<lambda>d. (doc_id d, doc_content_hash d)) (documents s1) @ later"
    and second: "upload_document env id2 file2 s1' = (Inr r2, s2)"
    and same: "calculate_file_hash env (up_content file2) = calculate_file_hash env (up_content file1)"
  shows "(\<exists>d1 d. find (\<lambda>d. doc_content_hash d = calculate_file_hash env (up_content file1))
                   (documents s1) = Some d1
              \<and> resp_id r1 = doc_id d1
              \<and> find (\<lambda>d. doc_content_hash d = calculate_file_hash env (up_content file1))
                   (documents s1') = Some d
              \<and> doc_id d = doc_id d1
              \<and> r2 = \<lparr>resp_id = doc_id d, resp_filename = doc_filename d,
                       resp_status = ''already_exists'',
                       resp_message = ''Document already uploaded''\<rparr>)
         \<and> resp_status r2 = ''already_exists'' \<and> resp_id r2 = resp_id r1
         \<and> documents s2 = documents s1' \<and> stored_documents s2 = stored_documents s1'
         \<and> tasks s2 = tasks s1' \<and> points s2 = points s1'
         \<and> stored_chunks s2 = stored_chunks s1' \<and> new_chunks s2 = new_chunks s1'
         \<and> trace s2 = trace s1'
         \<and> (distinct (map doc_content_hash (documents s)) \<longrightarrow>
              distinct (map doc_content_hash (documents s1))
              \<and> length (filter (\<lambda>d. doc_content_hash d = calculate_file_hash env (up_content file1))
                          (documents s1)) = 1)
         \<and> (distinct (map doc_content_hash (documents s1')) \<longrightarrow>
              distinct (map doc_content_hash (documents s2))
              \<and> length (filter (\<lambda>d. doc_content_hash d = calculate_file_hash env (up_content file1))
                          (documents s2)) = 1)"
proof -
  let ?h = "calculate_file_hash env (up_content file1)"
  let ?P = "\<lambda>d. doc_content_hash d = ?h"
  have "\<exists>d. find ?P (documents s1) = Some d \<and> doc_id d = resp_id r1
        \<and> (distinct (map doc_content_hash (documents s)) \<longrightarrow>
              distinct (map doc_content_hash (documents s1))
              \<and> length (filter (\<lambda>x. x = ?h) (map doc_content_hash (documents s1))) = 1)"
  proof (cases "find ?P (documents s)")
    case None
    from upload_new[OF first None] obtain document where
      d: "resp_id r1 = id1" "documents s1 = documents s @ [document]" "doc_id document = id1"
         "doc_content_hash document = ?h"
      by auto
    from None have no: "\<forall>x \<in> set (documents s). doc_content_hash x \<noteq> ?h"
      by (simp add: find_None_iff)
    then have "filter (\<lambda>x. x = ?h) (map doc_content_hash (documents s)) = []"
      by (auto simp: filter_empty_conv)
    moreover from None have "find ?P (documents s @ [document]) = Some document"
      using d(4) by (rule find_append_new)
    ultimately show ?thesis using d no by (auto simp: image_iff)
  next
    case (Some existing_doc)
    from upload_existing[OF first Some]
    have e: "resp_id r1 = doc_id existing_doc" "documents s1 = documents s" by simp_all
    have "length (filter (\<lambda>x. x = ?h) (map doc_content_hash (documents s))) = 1"
      if "distinct (map doc_content_hash (documents s))"
    proof -
      from Some have "existing_doc \<in> set (documents s)" "?P existing_doc"
        by (auto simp: find_Some_iff)
      then have "?h \<in> set (map doc_content_hash (documents s))" by force
      with that show ?thesis by (rule distinct_count_one)
    qed
    with Some e show ?thesis by auto
  qed
  then obtain d1 where d1: "find ?P (documents s1) = Some d1" "doc_id d1 = resp_id r1"
    and inv: "distinct (map doc_content_hash (documents s)) \<longrightarrow>
              distinct (map doc_content_hash (documents s1))
              \<and> length (filter (\<lambda>x. x = ?h) (map doc_content_hash (documents s1))) = 1"
    by blast
  from find_prefix_keys[OF between d1(1)] obtain d where
    d: "find ?P (documents s1') = Some d" "doc_id d = doc_id d1"
    by blast
  from d(1) same have "find (\<lambda>d. doc_content_hash d = calculate_file_hash env (up_content file2))
      (documents s1') = Some d" by simp
  from upload_existing[OF second this]
  have res: "r2 = \<lparr>resp_id = doc_id d, resp_filename = doc_filename d,
                       resp_status = ''already_exists'',
                       resp_message = ''Document already uploaded''\<rparr>"
    "documents s2 = documents s1'" "stored_documents s2 = stored_documents s1'"
    "tasks s2 = tasks s1'" "points s2 = points s1'" "stored_chunks s2 = stored_chunks s1'"
    "new_chunks s2 = new_chunks s1'" "trace s2 = trace s1'"
    by simp_all
  have cnt: "length (filter ?P (documents s1')) = 1"
    if "distinct (map doc_content_hash (documents s1'))"
  proof -
    from d(1) have "d \<in> set (documents s1')" "?P d" by (auto simp: find_Some_iff)
    then have "?h \<in> set (map doc_content_hash (documents s1'))" by force
    with that have "length (filter (\<lambda>x. x = ?h) (map doc_content_hash (documents s1'))) = 1"
      by (rule distinct_count_one)
    then show ?thesis by (simp add: filter_map comp_def)
  qed
  have cnt1: "length (filter ?P (documents s1)) =
      length (filter (\<lambda>x. x = ?h) (map doc_content_hash (documents s1)))"
    by (simp add: filter_map comp_def)
  have first_part: "\<exists>d1 d. find ?P (documents s1) = Some d1 \<and> resp_id r1 = doc_id d1
              \<and> find ?P (documents s1') = Some d \<and> doc_id d = doc_id d1
              \<and> r2 = \<lparr>resp_id = doc_id d, resp_filename = doc_filename d,
                       resp_status = ''already_exists'',
                       resp_message = ''Document already uploaded''\<rparr>"
    using d1 d res(1) by auto
  have ids: "resp_status r2 = ''already_exists''" "resp_id r2 = resp_id r1"
    using res(1) d(2) d1(2) by simp_all
  from first_part ids res(2-8) inv cnt cnt1 show ?thesis by simp
qed

text \<open>The file \<open>a.pdf\<close> is uploaded as \<open>u1\<close>, another file as \<open>u2\<close>, and then the bytes
  of the first arrive again as \<open>copy of a.PDF\<close>: the answer names \<open>u1\<close>.\<close>

theorem duplicate_upload_is_noop_witness:
  "upload_document example_env ''u3'' example_copy two_uploads_state =
     (Inr \<lparr>resp_id = ''u1'', resp_filename = ''u1_a.pdf'', resp_status = ''already_exists'',
           resp_message = ''Document already uploaded''\<rparr>,
      two_uploads_state)
   \<and> map doc_id (documents two_uploads_state) = [''u1'', ''u2'']
   \<and> length (filter (\<lambda>d. doc_content_hash d =
                  calculate_file_hash example_env (up_content example_file))
         (documents two_uploads_state)) = 1"
proof -
  have same: "calculate_file_hash example_env (up_content example_copy) =
      calculate_file_hash example_env (up_content example_file)"
    by (simp add: example_copy_def example_file_def)
  have between: "map (\<lambda>d. (doc_id d, doc_content_hash d)) (documents two_uploads_state)
      = map (\<lambda>d. (doc_id d, doc_content_hash d)) (documents uploaded_state)
        @ [(''u2'', ''%PDF-1.4 another'')]"
    by (simp add: two_uploads_documents uploaded_state_value)
  have "distinct (map doc_content_hash (documents two_uploads_state))"
    by (simp add: two_uploads_documents)
  with duplicate_upload_is_noop[OF example_first_upload between example_third_upload same] example_third_upload
  show ?thesis by (simp add: two_uploads_documents)
qed

section \<open>Verification: the ingestion pipeline\<close>

subsection \<open>Failures\<close>

lemma fail_document_recorded:
  assumes "find (\<lambda>d. doc_id d = i) (documents s) = Some d"
    and "fail_document i e s = (r, s')"
  shows "r = Inr False \<and>
         find (\<lambda>d. doc_id d = i) (stored_documents s') =
           Some (d\<lparr>doc_processing_status := ''failed'', doc_error_message := Some (str_exn e)\<rparr>)"
  using assms
  by (auto simp: fail_document_def commit_fields set_document_fields find_update_first)


text \<open>When the Document row exists, a run that returns either succeeds or returns
  \<open>False\<close> with the status \<open>failed\<close> and the message of the exception committed on the
  row: no exception leaves \<open>process_pdf\<close>.\<close>

lemma process_pdf_failure_recorded:
  assumes found: "find (\<lambda>d. doc_id d = document_id) (documents s) = Some document"
    and run: "process_pdf env file_path document_id s = Some (r, s')"
  shows "r = Inr True \<or>
         (r = Inr False \<and>
          (\<exists>e d. find (\<lambda>d. doc_id d = document_id) (stored_documents s') = Some d
             \<and> doc_processing_status d = ''failed'' \<and> doc_error_message d = Some (str_exn e)))"
proof -
  let ?P = "\<lambda>d. doc_id d = document_id"
  define s1 where "s1 = commit (set_document document_id
                      (\<lambda>d. d\<lparr>doc_processing_status := ''processing''\<rparr>) s)"
  have f1: "find ?P (documents s1) = Some (document\<lparr>doc_processing_status := ''processing''\<rparr>)"
    using found by (simp add: s1_def commit_fields set_document_fields find_update_first)
  have failing: ?thesis if "fail_document document_id e s2 = (r, s')"
    and "find ?P (documents s2) = Some d2" for e s2 d2
    using fail_document_recorded[OF that(2) that(1)] by auto
  show ?thesis
  proof (cases "extract_text_from_pdf (read_pdf env file_path)")
    case (Inl e)
    with run found have "fail_document document_id e s1 = (r, s')"
      by (simp add: process_pdf_def s1_def Let_def)
    from failing[OF this f1] show ?thesis .
  next
    case (Inr pages)
    define s2 where "s2 = set_document document_id
                            (\<lambda>d. d\<lparr>doc_page_count := Some (length pages)\<rparr>) s1"
    have f2: "find ?P (documents s2) = Some (document\<lparr>doc_processing_status := ''processing'',
        doc_page_count := Some (length pages)\<rparr>)"
      using f1 by (simp add: s2_def set_document_fields find_update_first)
    from run found Inr obtain chunk_metadata where
      cm: "collect_chunks env document_id pages [] = Some chunk_metadata"
      by (cases "collect_chunks env document_id pages []")
         (auto simp: process_pdf_def Let_def)
    show ?thesis
    proof (cases "encode env (map md_content chunk_metadata)")
      case (Inl e)
      with run found Inr cm have "fail_document document_id e s2 = (r, s')"
        by (simp add: process_pdf_def s1_def s2_def Let_def)
      from failing[OF this f2] show ?thesis .
    next
      case enc: (Inr embeddings)
      show ?thesis
      proof (cases "upsert_error env (build_points document_id document chunk_metadata embeddings)")
        case (Some e)
        with run found Inr cm enc have "fail_document document_id e s2 = (r, s')"
          by (simp add: process_pdf_def s1_def s2_def Let_def)
        from failing[OF this f2] show ?thesis .
      next
        case None
        with run found Inr cm enc have "r = Inr True"
          by (simp add: process_pdf_def Let_def)
        then show ?thesis by simp
      qed
    qed
  qed
qed


text \<open>A run need not return at all: on a page like \<open>long_text\<close>, \<open>chunk_text\<close> loops.\<close>

lemma process_pdf_never_returns_on_long_page:
  assumes "find (\<lambda>d. doc_id d = document_id) (documents s) = Some document"
    and "read_pdf env file_path = Inr [long_text]"
  shows "process_pdf env file_path document_id s = None"
proof -
  have "long_text \<noteq> []" by (simp add: long_text_def)
  with assms show ?thesis
    by (simp add: process_pdf_def extract_text_from_pdf_def long_text_strip Let_def
        chunk_text_default_configuration_never_returns)
qed

text \<open>
  Claim C5: whenever a step of \<open>process_pdf\<close> raises, the failure is caught at the
  pipeline boundary, the Document is set to \<open>failed\<close> with the error message persisted,
  and no exception propagates to the caller, including when the failing step is the
  lookup of the Document itself.

  The code does not hold this for the lookup. With no row of the given identifier, the
  \<open>ValueError\<close> is raised inside the \<open>try\<close> while \<open>document\<close> is \<open>None\<close>; the handler
  starts with \<open>document.processing_status = 'failed'\<close>, which raises an
  \<open>AttributeError\<close> that leaves \<open>process_pdf\<close>, and nothing is recorded.
\<close>

theorem process_pdf_missing_document_raises:
  "process_pdf example_env ''uploads/u1_a.pdf'' ''u1'' empty_state =
     Some (Inl (AttributeError NONE_HAS_NO_STATUS), empty_state)"
  by (simp add: process_pdf_def empty_state_def)


subsection \<open>Vectors before rows\<close>

lemma upserted_first_adds:
  "upserted_first known (map (\<lambda>c. AddChunk (f c)) rows @ evs)
     = (f ` set rows \<subseteq> set known \<and> upserted_first known evs)"
  by (induction rows) auto

lemma filter_upsert_adds: "filter is_upsert (map (\<lambda>c. AddChunk (f c)) rows) = []"
  by (induction rows) auto

lemma fail_document_trace:
  "fail_document i e s = (r, s') \<Longrightarrow>
     r = Inr False \<and> trace s' = trace s @ [Commit (map dc_vector_id (new_chunks s))]
     \<and> stored_chunks s' = stored_chunks s @ new_chunks s \<and> points s' = points s
     \<and> new_chunks s' = []"
  by (auto simp: fail_document_def commit_fields set_document_fields)


text \<open>
  Claim C8: in every run of \<open>process_pdf\<close> that reaches the indexing stage, the single
  batched upsert of the vectors is performed before any Chunk row is inserted or
  committed, and Chunk rows are never committed while their vectors are absent from the
  index.

  For every run that returns, with an embedding provider that gives one vector per text:
  the events of the run keep vectors ahead of rows (every row added or committed has its
  vector id in the batch upserted before it, rows pending before the run apart), there is
  at most one upsert, exactly one in a successful run, and every committed chunk row at
  the end is an earlier one or has its vector id in the collection.
\<close>

theorem upsert_precedes_chunk_rows:
  assumes run: "process_pdf env file_path document_id s = Some (r, s')"
    and contract: "\<And>texts vs. encode env texts = Inr vs \<Longrightarrow> length vs = length texts"
  shows "(\<exists>new. trace s' = trace s @ new
           \<and> upserted_first (map dc_vector_id (new_chunks s)) new
           \<and> length (filter is_upsert new) \<le> 1
           \<and> (r = Inr True \<longrightarrow> length (filter is_upsert new) = 1))
         \<and> (\<forall>c \<in> set (stored_chunks s').
           c \<in> set (stored_chunks s) \<or> c \<in> set (new_chunks s)
           \<or> dc_vector_id c \<in> pt_id ` set (points s'))"
proof -
  let ?goal1 = "\<exists>new. trace s' = trace s @ new
           \<and> upserted_first (map dc_vector_id (new_chunks s)) new
           \<and> length (filter is_upsert new) \<le> 1
           \<and> (r = Inr True \<longrightarrow> length (filter is_upsert new) = 1)"
  let ?goal2 = "\<forall>c \<in> set (stored_chunks s').
           c \<in> set (stored_chunks s) \<or> c \<in> set (new_chunks s)
           \<or> dc_vector_id c \<in> pt_id ` set (points s')"
  show "?goal1 \<and> ?goal2"
  proof (cases "find (\<lambda>d. doc_id d = document_id) (documents s)")
    case None
    with run have "s' = s" "r \<noteq> Inr True" by (auto simp: process_pdf_def)
    then show ?thesis by auto
  next
    case (Some document)
    define s1 where "s1 = commit (set_document document_id
                      (\<lambda>d. d\<lparr>doc_processing_status := ''processing''\<rparr>) s)"
    have s1: "trace s1 = trace s @ [Commit (map dc_vector_id (new_chunks s))]"
      "new_chunks s1 = []" "stored_chunks s1 = stored_chunks s @ new_chunks s"
      "points s1 = points s"
      by (simp_all add: s1_def commit_fields set_document_fields)
    have failing: "?goal1 \<and> ?goal2" if "fail_document document_id e s2 = (r, s')"
      and "trace s2 = trace s1" "new_chunks s2 = []" "stored_chunks s2 = stored_chunks s1"
      for e s2
    proof -
      from fail_document_trace[OF that(1)] that(2-4) s1
      have "r = Inr False" "trace s' = trace s @ [Commit (map dc_vector_id (new_chunks s)), Commit []]"
        "stored_chunks s' = stored_chunks s @ new_chunks s"
        by auto
      then show ?thesis by auto
    qed
    show ?thesis
    proof (cases "extract_text_from_pdf (read_pdf env file_path)")
      case (Inl e)
      with run Some have "fail_document document_id e s1 = (r, s')"
        by (simp add: process_pdf_def s1_def Let_def)
      from failing[OF this] s1 show ?thesis by simp
    next
      case (Inr pages)
      define s2 where "s2 = set_document document_id
                              (\<lambda>d. d\<lparr>doc_page_count := Some (length pages)\<rparr>) s1"
      have s2: "trace s2 = trace s1" "new_chunks s2 = []" "stored_chunks s2 = stored_chunks s1"
        "points s2 = points s1"
        by (simp_all add: s2_def set_document_fields s1)
      from run Some Inr obtain chunk_metadata where
        cm: "collect_chunks env document_id pages [] = Some chunk_metadata"
        by (cases "collect_chunks env document_id pages []")
           (auto simp: process_pdf_def Let_def)
      show ?thesis
      proof (cases "encode env (map md_content chunk_metadata)")
        case (Inl e)
        with run Some Inr cm have "fail_document document_id e s2 = (r, s')"
          by (simp add: process_pdf_def s1_def s2_def Let_def)
        from failing[OF this] s2 show ?thesis by simp
      next
        case enc: (Inr embeddings)
        define ps where "ps = build_points document_id document chunk_metadata embeddings"
        from contract[OF enc] have len: "length embeddings = length chunk_metadata" by simp
        have ids: "map pt_id ps = map md_chunk_uuid chunk_metadata"
          unfolding ps_def by (rule build_points_ids[OF len])
        show ?thesis
        proof (cases "upsert_error env ps")
          case (Some e)
          with run \<open>find _ _ = Some document\<close> Inr cm enc
          have "fail_document document_id e s2 = (r, s')"
            by (simp add: process_pdf_def s1_def s2_def ps_def Let_def)
          from failing[OF this] s2 show ?thesis by simp
        next
          case None
          define rows where "rows = map (make_chunk_row document_id) chunk_metadata"
          define s4 where "s4 = foldl db_add_chunk (qdrant_upsert ps s2) rows"
          have vid: "map dc_vector_id rows = map md_chunk_uuid chunk_metadata"
            by (simp add: rows_def make_chunk_row_def comp_def)
          from run \<open>find _ _ = Some document\<close> Inr cm enc None
          have res: "r = Inr True"
            "s' = commit (set_document document_id
                    (\<lambda>d. d\<lparr>doc_processing_status := ''completed'',
                           doc_chunk_count := length chunk_metadata\<rparr>) s4)"
            by (simp_all add: process_pdf_def s1_def s2_def ps_def s4_def rows_def Let_def)
          have tr: "trace s' = trace s @
              ([Commit (map dc_vector_id (new_chunks s)), Upsert (map pt_id ps)]
               @ map (\<lambda>c. AddChunk (dc_vector_id c)) rows @ [Commit (map dc_vector_id rows)])"
            by (simp add: res s4_def commit_fields set_document_fields add_chunks_fields
                qdrant_upsert_fields s2 s1)
          have sc: "stored_chunks s' = stored_chunks s @ new_chunks s @ rows"
            by (simp add: res s4_def commit_fields set_document_fields add_chunks_fields
                qdrant_upsert_fields s2 s1)
          have pts: "pt_id ` set (points s') = pt_id ` set (points s) \<union> pt_id ` set ps"
            by (simp add: res s4_def commit_fields set_document_fields add_chunks_fields
                qdrant_upsert_fields s2 s1 upsert_points_ids)
          have cover: "dc_vector_id ` set rows \<subseteq> pt_id ` set ps"
            using ids vid by (metis image_set subset_refl)
          have g1: ?goal1
          proof (intro exI conjI)
            show "trace s' = trace s @
              ([Commit (map dc_vector_id (new_chunks s)), Upsert (map pt_id ps)]
               @ map (\<lambda>c. AddChunk (dc_vector_id c)) rows @ [Commit (map dc_vector_id rows)])"
              by (rule tr)
            show "upserted_first (map dc_vector_id (new_chunks s))
              ([Commit (map dc_vector_id (new_chunks s)), Upsert (map pt_id ps)]
               @ map (\<lambda>c. AddChunk (dc_vector_id c)) rows @ [Commit (map dc_vector_id rows)])"
              using cover by (auto simp: upserted_first_adds)
          qed (simp_all add: filter_upsert_adds)
          have g2: ?goal2
            using cover by (auto simp: sc pts)
          from g1 g2 show ?thesis by blast
        qed
      qed
    qed
  qed
qed


text \<open>The run on the uploaded example: one upsert of two points, then two rows.\<close>

theorem upsert_precedes_chunk_rows_witness:
  "\<exists>s'. process_pdf example_env ''uploads/u1_a.pdf'' ''u1'' uploaded_state = Some (Inr True, s')
     \<and> (\<exists>new. trace s' = trace uploaded_state @ new \<and> upserted_first [] new
            \<and> length (filter is_upsert new) = 1)"
proof -
  from example_run obtain s' where
    run: "process_pdf example_env ''uploads/u1_a.pdf'' ''u1'' uploaded_state = Some (Inr True, s')"
    by blast
  have "new_chunks uploaded_state = []" by (simp add: uploaded_state_value)
  with upsert_precedes_chunk_rows[OF run example_contract] run show ?thesis by auto
qed


subsection \<open>The payload of a point\<close>








section \<open>Verification: similarity search\<close>

text \<open>The filter that the code builds holds for a payload exactly when its document
  identifier equals every identifier of the list.\<close>

lemma must_filter_is_conjunction:
  "filter_holds (prepare_filter (Some (d # ds))) pl = (\<forall>x \<in> set (d # ds). pl_document_id pl = x)"
  by (simp add: prepare_filter_def payload_field_def list_all_iff)

text \<open>
  Claim C1: a non-empty document filter is a logical OR across its identifiers: a vector
  qualifies exactly when its payload's \<open>document_id\<close> equals at least one of them, so with
  the filter \<open>{A, B}\<close> the matches of \<open>A\<close> alone and of \<open>B\<close> alone can be returned.

  The code puts one condition per identifier into the \<open>must\<close> clause, which Qdrant
  evaluates as a conjunction. On a collection with one point of \<open>A\<close> and one of \<open>B\<close>, the
  filter \<open>[A, B]\<close> returns nothing, while \<open>[A]\<close> and \<open>[B]\<close> each return their point.
\<close>

theorem document_filter_of_two_matches_nothing:
  "search_similar_chunks example_env index_AB ''q'' 5 (Some [''A'', ''B'']) = Inr []
   \<and> map_sum id (map hit_document_id)
        (search_similar_chunks example_env index_AB ''q'' 5 (Some [''A''])) = Inr [''A'']
   \<and> map_sum id (map hit_document_id)
        (search_similar_chunks example_env index_AB ''q'' 5 (Some [''B''])) = Inr [''B'']"
  by (simp add: search_similar_chunks_def try_except_def example_env_def index_AB_def
      empty_state_def point_of_def prepare_filter_def qdrant_search_def payload_field_def
      format_hit_def)

section \<open>Verification: the answer composer\<close>

text \<open>With no matches and \<open>only_answer_if_sources\<close> set, the decline message is what is
  sent to the generation provider, and the answer is what the provider makes of it.\<close>

lemma generate_response_no_sources:
  "\<exists>r. generate_response env query [] True = Inr (r, [NO_SOURCES_MESSAGE])
     \<and> ans_response r =
        (case generate_content env NO_SOURCES_MESSAGE of
           Inl e \<Rightarrow> ''I encountered an error while generating the response: '' @ str_exn e
         | Inr txt \<Rightarrow> txt)"
  by (simp add: generate_response_def create_rag_prompt_def try_except_def Let_def
      split: sum.splits)

text \<open>
  Claim C3: when the search returns no matches and \<open>only_answer_if_sources\<close> is true,
  the composer returns the fixed decline message as the answer, with empty sources, and
  does not invoke the generation provider.

  The code invokes it: \<open>create_rag_prompt\<close> returns the decline message as the prompt,
  and \<open>generate_response\<close> sends that prompt to the provider and answers with the
  provider's text. On an empty index the provider receives one prompt, the decline
  message, and the answer is \<open>Generated answer\<close>.
\<close>

theorem no_sources_strict_mode_calls_provider:
  "answer_question example_env empty_state ''What is this about?'' 5 None True =
     Inr (\<lparr>ans_response = ''Generated answer'', ans_sources = [], ans_context_chunks = [],
           ans_response_time_ms = 42, ans_tokens_used = 2\<rparr>,
          [NO_SOURCES_MESSAGE])"
  by (simp add: answer_question_def search_similar_chunks_def try_except_def example_env_def
      empty_state_def prepare_filter_def qdrant_search_def generate_response_def
      create_rag_prompt_def py_split_def is_space_def)

text \<open>A failure of the embedding of the query, or of the index search, is a failure of
  \<open>search_similar_chunks\<close>.\<close>

lemma search_fails_on_embedding_failure:
  "encode env [query] = Inl e \<Longrightarrow> search_similar_chunks env s query top_k document_filter = Inl e"
  by (simp add: search_similar_chunks_def try_except_def)

lemma search_fails_on_index_failure:
  "encode env [query] = Inr (v # vs) \<Longrightarrow> search_error env = Some e \<Longrightarrow>
     search_similar_chunks env s query top_k document_filter = Inl e"
  by (simp add: search_similar_chunks_def try_except_def)

text \<open>
  Claim C6: \<open>answer_question\<close> never raises. Whatever the collaborators do, it returns a
  result with an answer text, sources, a response time and a token count: when the
  retrieval (embedding or search) fails, the answer describes the error, with empty
  sources, time 0 and 0 tokens; when the generation call fails, the answer describes the
  error, with empty sources, the measured time and 0 tokens; otherwise it is the
  provider's text with one source per match.
\<close>

theorem answer_question_never_raises:
  "\<exists>r prompts.
     answer_question env s query top_k document_filter only_answer_if_sources = Inr (r, prompts) \<and>
     (case search_similar_chunks env s query top_k document_filter of
        Inl e \<Rightarrow>
          r = \<lparr>ans_response =
                 ''I encountered an error while processing your question: '' @ str_exn e,
               ans_sources = [], ans_context_chunks = [],
               ans_response_time_ms = 0, ans_tokens_used = 0\<rparr>
      | Inr chunks \<Rightarrow>
          (case generate_content env (create_rag_prompt query chunks only_answer_if_sources) of
             Inl e \<Rightarrow>
               r = \<lparr>ans_response =
                      ''I encountered an error while generating the response: '' @ str_exn e,
                    ans_sources = [], ans_context_chunks = [],
                    ans_response_time_ms = elapsed_ms env, ans_tokens_used = 0\<rparr>
           | Inr txt \<Rightarrow>
               r = \<lparr>ans_response = txt,
                    ans_sources = map make_source chunks, ans_context_chunks = chunks,
                    ans_response_time_ms = elapsed_ms env,
                    ans_tokens_used = (if txt \<noteq> [] then length (py_split txt) else 0)\<rparr>))"
  by (simp add: answer_question_def generate_response_def try_except_def Let_def
      split: sum.splits)

end
